theory Spec2Isabelle
  imports Main "HOL-Library.Word" "HOL-Library.Multiset"
begin

section \<open>Machine integers and primitive types\<close>

text \<open>
  The engine works on fixed-width unsigned integers: \<open>uint8_t\<close>, \<open>uint16_t\<close>,
  \<open>uint32_t\<close>, \<open>uint64_t\<close> and \<open>size_t\<close> (64 bits on the supported platforms).
  They are modelled as words, so that \<open>+\<close> and \<open>-\<close> wrap around as in C++.
  Hashes, key images and public keys are 32-byte blobs.
\<close>

type_synonym u8 = "8 word"
type_synonym u16 = "16 word"
type_synonym u32 = "32 word"
type_synonym u64 = "64 word"
type_synonym Hash = "256 word"
type_synonym KeyImage = "256 word"
type_synonym PublicKey = "256 word"
type_synonym Signature = "512 word"

section \<open>Common/Math.h: medianValue\<close>

text \<open>
  \<^verbatim>\<open>
  template <class T> T medianValue(std::vector<T> &v) {
    if (v.empty()) return T();
    if (v.size() == 1) return v[0];
    auto n = (v.size()) / 2;
    std::sort(v.begin(), v.end());
    if (v.size() % 2) return v[n];
    else return (v[n - 1] + v[n]) / 2;
  }
  \<close>
  The engine instantiates \<open>T\<close> with \<open>uint64_t\<close> (timestamps) and \<open>size_t\<close> (block
  sizes); \<open>std::sort\<close> orders them as unsigned numbers, which is the order of
  \<open>64 word\<close>. The sum of the two middle elements is a 64-bit sum.
\<close>

definition medianValue :: "u64 list \<Rightarrow> u64" where
  "medianValue v =
     (if v = [] then 0
      else if length v = 1 then v ! 0
      else let n = length v div 2; s = sort v in
        if length v mod 2 \<noteq> 0 then s ! n
        else (s ! (n - 1) + s ! n) div 2)"

section \<open>include/CryptoNote.h: transactions and blocks\<close>

text \<open>
  The tagged unions \<open>TransactionInput\<close> and \<open>TransactionOutputTarget\<close> are datatypes,
  the structs are records. The merge-mining envelope \<open>parentBlock\<close> of a block is read
  by none of the functions modelled here and is left out.
\<close>

datatype TransactionInput =
    BaseInput u32
  | KeyInput u64 "u32 list" KeyImage
  | MultisignatureInput u64 u8 u32

datatype TransactionOutputTarget =
    KeyOutput PublicKey
  | MultisignatureOutput "PublicKey list" u8

record TransactionOutput =
  amount :: u64
  target :: TransactionOutputTarget

record Transaction =
  version :: u8
  unlockTime :: u64
  inputs :: "TransactionInput list"
  outputs :: "TransactionOutput list"
  extra :: "u8 list"
  signatures :: "Signature list list"

record Block =
  majorVersion :: u8
  minorVersion :: u8
  nonce :: u32
  timestamp :: u64
  previousBlockHash :: Hash
  baseTransaction :: Transaction
  transactionHashes :: "Hash list"
  algorithm :: u8

definition BLOCK_MAJOR_VERSION_1 :: u8 where "BLOCK_MAJOR_VERSION_1 = 1"
definition BLOCK_MAJOR_VERSION_2 :: u8 where "BLOCK_MAJOR_VERSION_2 = 2"
definition BLOCK_MAJOR_VERSION_3 :: u8 where "BLOCK_MAJOR_VERSION_3 = 3"
definition BLOCK_MAJOR_VERSION_4 :: u8 where "BLOCK_MAJOR_VERSION_4 = 4"
definition BLOCK_MAJOR_VERSION_5 :: u8 where "BLOCK_MAJOR_VERSION_5 = 5"

definition NULL_HASH :: Hash where "NULL_HASH = 0"

section \<open>Persisted entries (as Blockchain.cpp uses them)\<close>

text \<open>
  \<open>Blockchain.h\<close> is not among the sources; the entries below have the fields that
  \<open>Blockchain.cpp\<close> reads and writes.
\<close>

record TransactionIndex =
  block :: u32
  transaction :: u16

record TransactionEntry =
  tx :: Transaction
  m_global_output_indexes :: "u32 list"

record BlockEntry =
  bl :: Block
  height :: u32
  block_cumulative_size :: u64
  cumulative_difficulty :: u64
  already_generated_coins :: u64
  transactions :: "TransactionEntry list"

record MultisignatureOutputUsage =
  transactionIndex :: TransactionIndex
  outputIndex :: u16
  isUsed :: bool

section \<open>The persistent store\<close>

text \<open>
  Modelled from the spec: the key-value backend \<open>Platform::DB\<close> is not among the
  sources. The specification gives its contract (section 4.A): point \<open>get\<close>, \<open>put\<close>
  and \<open>delete\<close>, iteration over a prefix in key order, \<open>get\<close> never throws, \<open>put\<close>
  throws on a duplicate when the caller asserts creation-only, \<open>delete\<close> throws on
  absence when the caller asserts existence.

  Every key of the engine starts with the prefix of its key space (section 4.B), so
  the store is the record of its key spaces, each a map from the key suffix to the
  value stored there. Values are kept as the objects the engine serialises: the
  binary encoding is taken to round-trip, so that reading a value back from its own
  key space always parses. The height index \<open>b/\<close> is the only key space the engine
  iterates with a cursor; it is an association list with distinct keys.
\<close>

record DB =
  block_index :: "(u64 \<times> Hash) list"
  blocks :: "Hash \<rightharpoonup> BlockEntry"
  transactions_index :: "Hash \<rightharpoonup> TransactionIndex"
  spent_key_images :: "KeyImage \<rightharpoonup> u64"
  outputs_index :: "u64 \<rightharpoonup> (TransactionIndex \<times> u16) list"
  multisignature_outputs :: "u64 \<rightharpoonup> MultisignatureOutputUsage list"
  payment_id_index :: "Hash \<rightharpoonup> Hash list"
  timestamp_index :: "u64 \<rightharpoonup> (u32 \<times> Hash) list"
  generated_transactions_index :: "u64 \<rightharpoonup> u64"

text \<open>\<open>put\<close> and \<open>del\<close> return \<open>None\<close> where the backend throws.\<close>

definition map_put :: "('k \<rightharpoonup> 'v) \<Rightarrow> 'k \<Rightarrow> 'v \<Rightarrow> bool \<Rightarrow> ('k \<rightharpoonup> 'v) option" where
  "map_put m k v nooverwrite =
     (if nooverwrite \<and> m k \<noteq> None then None else Some (m(k \<mapsto> v)))"

definition map_del :: "('k \<rightharpoonup> 'v) \<Rightarrow> 'k \<Rightarrow> bool \<Rightarrow> ('k \<rightharpoonup> 'v) option" where
  "map_del m k mustexist =
     (if mustexist \<and> m k = None then None else Some (m(k := None)))"

definition bi_put :: "(u64 \<times> Hash) list \<Rightarrow> u64 \<Rightarrow> Hash \<Rightarrow> bool \<Rightarrow> (u64 \<times> Hash) list option" where
  "bi_put bi k v nooverwrite =
     (if nooverwrite \<and> map_of bi k \<noteq> None then None
      else Some ((k, v) # filter (\<lambda>e. fst e \<noteq> k) bi))"

definition bi_del :: "(u64 \<times> Hash) list \<Rightarrow> u64 \<Rightarrow> bool \<Rightarrow> (u64 \<times> Hash) list option" where
  "bi_del bi k mustexist =
     (if mustexist \<and> map_of bi k = None then None
      else Some (filter (\<lambda>e. fst e \<noteq> k) bi))"

text \<open>
  \<open>m_db.begin(BLOCK_INDEX_PREFIX, middle)\<close>: the entries of the height index from key
  \<open>middle\<close> on, in ascending key order. \<open>m_db.rbegin(BLOCK_INDEX_PREFIX)\<close>: the entry
  with the greatest key, if there is one (\<open>cur.end()\<close> otherwise).
\<close>

definition cursor_begin :: "(u64 \<times> Hash) list \<Rightarrow> u64 \<Rightarrow> (u64 \<times> Hash) list" where
  "cursor_begin bi middle = sort_key fst (filter (\<lambda>e. middle \<le> fst e) bi)"

definition cursor_rbegin :: "(u64 \<times> Hash) list \<Rightarrow> (u64 \<times> Hash) option" where
  "cursor_rbegin bi =
     fold (\<lambda>e acc. case acc of None \<Rightarrow> Some e
                   | Some a \<Rightarrow> if fst a < fst e then Some e else Some a) bi None"

section \<open>Collaborators: currency parameters, checkpoints, format and crypto helpers\<close>

text \<open>
  \<open>Currency\<close>, \<open>Checkpoints\<close>, the transaction pool, the hashing and serialisation
  helpers and the cryptographic primitives are not among the sources (the
  specification treats them as external collaborators). They are parameters of the
  model: every function of the engine takes the environment it runs in.
\<close>

record Currency =
  timestampCheckWindow :: "u8 \<Rightarrow> u64"
  blockFutureTimeLimit :: "u8 \<Rightarrow> u64"
  minedMoneyUnlockWindow :: u64
  minedMoneyUnlockWindow_v1 :: u64
  rewardBlocksWindow :: u64
  upgradeHeight :: "u8 \<Rightarrow> u32"
  getBlockReward :: "u8 \<Rightarrow> u64 \<Rightarrow> u64 \<Rightarrow> u64 \<Rightarrow> u64 \<Rightarrow> (u64 \<times> u64) option"
  maxBlockCumulativeSize :: "u64 \<Rightarrow> u64"
  blockGrantedFullRewardZoneByBlockVersion :: "u8 \<Rightarrow> u64"
  difficultyBlocksCountByBlockVersion :: "u8 \<Rightarrow> u64"
  nextDifficulty :: "u32 \<Rightarrow> u8 \<Rightarrow> u64 list \<Rightarrow> u64 list \<Rightarrow> u64"
  checkProofOfWork :: "Block \<Rightarrow> u64 \<Rightarrow> bool"

text \<open>
  \<open>getBlockReward\<close> returns \<open>Some (reward, emissionChange)\<close> where the C++ function
  returns true and sets its two reference parameters; \<open>emissionChange\<close> is an
  \<open>int64_t\<close>, kept as its 64-bit pattern. \<open>check_block\<close> returns its result and the
  flag \<open>is_a_checkpoint\<close>.
\<close>

record Checkpoints =
  is_in_checkpoint_zone :: "u32 \<Rightarrow> bool"
  check_block :: "u32 \<Rightarrow> Hash \<Rightarrow> bool \<times> bool"
  is_alternative_block_allowed :: "u32 \<Rightarrow> u32 \<Rightarrow> bool"

text \<open>
  The format helpers (CryptoNoteFormatUtils, CryptoNoteTools, TransactionExtra,
  BlockchainExplorerDataBuilder): hashes, sizes and the fields they extract.
  \<open>get_block_hash\<close> can fail on a block of invalid format.
\<close>

record Tools =
  get_block_hash :: "Block \<Rightarrow> Hash option"
  get_block_height :: "Block \<Rightarrow> u32"
  getObjectHash :: "Transaction \<Rightarrow> Hash"
  getObjectBinarySize :: "Transaction \<Rightarrow> u64"
  getMergeMiningTagFromExtra :: "u8 list \<Rightarrow> bool"
  getPaymentId :: "Transaction \<Rightarrow> Hash option"
  checkMultisignatureInputsDiff :: "Transaction \<Rightarrow> bool"
  getInputAmount :: "Transaction \<Rightarrow> u64"
  getOutputAmount :: "Transaction \<Rightarrow> u64"

section \<open>The chain manager's state\<close>

datatype BlockchainMessage =
    NewBlockMessage Hash
  | NewAlternativeBlockMessage Hash
  | ChainSwitchMessage "Hash list"

text \<open>
  Modelled from the spec: the transaction pool \<open>tx_memory_pool\<close> is not among the
  sources. Its contract (section 6): \<open>take\<close> removes and returns the transaction of
  a hash, \<open>add\<close> takes a transaction (back) in. The pool is the map from
  transaction hash to transaction. \<open>m_messages\<close> collects what \<open>sendMessage\<close> pushes
  on the message queues, \<open>m_observer_notifications\<close> counts the calls of
  \<open>blockchainUpdated\<close>.
\<close>

record Blockchain =
  m_db :: DB
  m_height :: u32
  m_lastGeneratedTxNumber :: u64
  m_alternative_chains :: "Hash \<rightharpoonup> BlockEntry"
  m_current_block_cumul_sz_limit :: u64
  m_synchronized :: bool
  m_tx_pool :: "Hash \<rightharpoonup> Transaction"
  m_messages :: "BlockchainMessage list"
  m_observer_notifications :: nat

text \<open>
  \<open>check_tx_input\<close> (domain of the key image, the ring of output keys, unlock times,
  ring signature) and \<open>validateInput\<close> (multisignature inputs) read the chain and
  call the cryptographic primitives; they change nothing. The claims use only
  whether they pass, so they are parameters of the model, given the state and the
  position of the input in the transaction. \<open>getBlockCumulativeSize\<close> sums the
  sizes of the transactions of a block, which it looks up through the template
  \<open>getTransactions\<close> of \<open>Blockchain.h\<close>; it is a parameter too.
\<close>

record Env =
  currency :: Currency
  checkpoints :: Checkpoints
  tools :: Tools
  get_adjusted_time :: u64
  uninitialized_entry :: BlockEntry
  check_tx_input :: "Blockchain \<Rightarrow> Transaction \<Rightarrow> nat \<Rightarrow> bool"
  validateInput :: "Blockchain \<Rightarrow> Transaction \<Rightarrow> nat \<Rightarrow> bool"
  getBlockCumulativeSize :: "Blockchain \<Rightarrow> Block \<Rightarrow> u64"

text \<open>
  \<open>get_adjusted_time\<close> is the wall clock (\<open>time(NULL)\<close>) at the moment of the call.
  \<open>uninitialized_entry\<close> is what a local \<open>BlockEntry e;\<close> holds when
  \<open>fromBinaryArray(e, ba)\<close> has not filled it (the record is missing or does not
  parse, and the result of \<open>fromBinaryArray\<close> is not looked at): empty vectors and
  indeterminate scalars.
\<close>

text \<open>
  Modelled from the spec: \<open>check_outs_overflow\<close> (CryptoNoteTools) is not among the
  sources. The specification asks for "no output overflow": the 64-bit running sum
  of the output amounts never wraps around.
\<close>

definition check_outs_overflow :: "Transaction \<Rightarrow> bool" where
  "check_outs_overflow t = (sum_list (map (\<lambda>out. unat (amount out)) (outputs t)) < 2 ^ 64)"

section \<open>Outcomes\<close>

text \<open>
  A function of the engine that can throw returns an outcome: its value, or the
  failure that leaves it. \<open>Exception\<close> is a C++ exception that the function lets
  through; \<open>Undefined\<close> marks a step the C++ standard leaves undefined (an index
  past the end of a vector).
\<close>

datatype failure = Exception | Undefined

datatype 'a outcome = Ok 'a | Fail failure

definition getCurrentBlockchainHeight :: "Blockchain \<Rightarrow> u32" where
  "getCurrentBlockchainHeight st = m_height st"

definition getBlockMajorVersionForHeight :: "Currency \<Rightarrow> u32 \<Rightarrow> u8" where
  "getBlockMajorVersionForHeight cur h =
     (if h > upgradeHeight cur BLOCK_MAJOR_VERSION_5 then BLOCK_MAJOR_VERSION_5
      else if h > upgradeHeight cur BLOCK_MAJOR_VERSION_4 then BLOCK_MAJOR_VERSION_4
      else if h > upgradeHeight cur BLOCK_MAJOR_VERSION_3 then BLOCK_MAJOR_VERSION_3
      else if h > upgradeHeight cur BLOCK_MAJOR_VERSION_2 then BLOCK_MAJOR_VERSION_2
      else BLOCK_MAJOR_VERSION_1)"

text \<open>
  The loops over the height index share one shape: a cursor \<open>cur\<close> walks the index
  while a counter runs, and each step copies the hash under the cursor, gets the
  block record of that hash and parses it into a fresh \<open>BlockEntry e\<close>, without
  looking at the results of \<open>get\<close> and \<open>fromBinaryArray\<close>. \<open>entry_at_cursor\<close> is the
  entry that step \<open>j\<close> of such a loop works on.
\<close>

definition entry_at_cursor :: "Env \<Rightarrow> DB \<Rightarrow> (u64 \<times> Hash) list \<Rightarrow> nat \<Rightarrow> BlockEntry" where
  "entry_at_cursor env db cur j =
     (if j < length cur then
        (case blocks db (snd (cur ! j)) of Some e \<Rightarrow> e | None \<Rightarrow> uninitialized_entry env)
      else uninitialized_entry env)"

section \<open>Timestamp check\<close>

text \<open>
  \<^verbatim>\<open>
  bool Blockchain::check_block_timestamp(std::vector<uint64_t> timestamps, const Block& b) {
    if (timestamps.size() < m_currency.timestampCheckWindow(b.majorVersion)) return true;
    uint64_t median_ts = Common::medianValue(timestamps);
    if (b.timestamp < median_ts) return false;
    return true;
  }
  \<close>
\<close>

definition check_block_timestamp :: "Currency \<Rightarrow> u64 list \<Rightarrow> Block \<Rightarrow> bool" where
  "check_block_timestamp cur timestamps b =
     (if length timestamps < unat (timestampCheckWindow cur (majorVersion b)) then True
      else if timestamp b < medianValue timestamps then False
      else True)"

text \<open>
  \<open>check_block_timestamp_main\<close> first compares the timestamp with the clock, then
  collects the timestamps of the last \<open>timestampCheckWindow\<close> blocks:
  \<^verbatim>\<open>
  if (b.timestamp > get_adjusted_time() + m_currency.blockFutureTimeLimit(b.majorVersion))
    return false;
  size_t offset = m_height <= window ? 0 : m_height - window;
  for (cur = m_db.begin(BLOCK_INDEX_PREFIX, offset); offset != m_height || !cur.end();
       ++offset, cur.next()) { ...; timestamps.push_back(e.bl.timestamp); }
  return check_block_timestamp(std::move(timestamps), b);
  \<close>
  The loop stops when the counter has reached \<open>m_height\<close> and the cursor is at its
  end. With at most \<open>m_height - offset\<close> entries under the cursor that is after
  \<open>m_height - offset\<close> steps; with more entries the counter passes \<open>m_height\<close> and
  the vector grows until the allocation fails.
\<close>

definition main_chain_timestamps :: "Env \<Rightarrow> Blockchain \<Rightarrow> u8 \<Rightarrow> u64 list outcome" where
  "main_chain_timestamps env st ver =
     (let h = (ucast (m_height st) :: u64);
          w = timestampCheckWindow (currency env) ver;
          offset = (if h \<le> w then 0 else h - w);
          cur = cursor_begin (block_index (m_db st)) offset;
          n = unat (h - offset)
      in if length cur \<le> n
         then Ok (map (\<lambda>j. timestamp (bl (entry_at_cursor env (m_db st) cur j))) [0..<n])
         else Fail Exception)"

definition check_block_timestamp_main :: "Env \<Rightarrow> Blockchain \<Rightarrow> Block \<Rightarrow> bool outcome" where
  "check_block_timestamp_main env st b =
     (if timestamp b > get_adjusted_time env + blockFutureTimeLimit (currency env) (majorVersion b)
      then Ok False
      else case main_chain_timestamps env st (majorVersion b) of
             Fail f \<Rightarrow> Fail f
           | Ok timestamps \<Rightarrow> Ok (check_block_timestamp (currency env) timestamps b))"

section \<open>Coinbase validation\<close>

text \<open>
  \<open>prevalidate_miner_transaction\<close>, check by check in the order of the source. The
  height is a \<open>uint32_t\<close> and the unlock windows are \<open>size_t\<close>: the sum is a 64-bit sum.
\<close>

definition prevalidate_miner_transaction :: "Currency \<Rightarrow> Block \<Rightarrow> u32 \<Rightarrow> bool" where
  "prevalidate_miner_transaction cur b h =
     (if \<not> (length (inputs (baseTransaction b)) = 1) then False
      else if \<not> (signatures (baseTransaction b) = []) then False
      else case inputs (baseTransaction b) ! 0 of
        BaseInput blockIndex \<Rightarrow>
          if blockIndex \<noteq> h then False
          else if \<not> (unlockTime (baseTransaction b) =
                    ucast h + (if majorVersion b < BLOCK_MAJOR_VERSION_5
                               then minedMoneyUnlockWindow cur
                               else minedMoneyUnlockWindow_v1 cur)) then False
          else if \<not> check_outs_overflow (baseTransaction b) then False
          else True
      | _ \<Rightarrow> False)"

text \<open>
  \<open>getBackwardBlocksSize\<close> appends the cumulative sizes of the blocks from
  \<open>start_offset\<close> to \<open>from_height\<close> to \<open>sz\<close>; \<open>get_last_n_blocks_sizes\<close> calls it on an
  empty vector for the last \<open>count\<close> blocks.
\<close>

definition getBackwardBlocksSize :: "Env \<Rightarrow> Blockchain \<Rightarrow> u64 \<Rightarrow> u64 \<Rightarrow> u64 list" where
  "getBackwardBlocksSize env st from_height cnt =
     (if \<not> (from_height < ucast (m_height st)) then []
      else let start_offset = (from_height + 1) - min (from_height + 1) cnt;
               cur = cursor_begin (block_index (m_db st)) start_offset;
               n = unat ((from_height + 1) - start_offset)
           in map (\<lambda>j. block_cumulative_size (entry_at_cursor env (m_db st) cur j)) [0..<n])"

definition get_last_n_blocks_sizes :: "Env \<Rightarrow> Blockchain \<Rightarrow> u64 \<Rightarrow> u64 list" where
  "get_last_n_blocks_sizes env st cnt =
     (if m_height st = 0 then []
      else getBackwardBlocksSize env st (ucast (m_height st - 1)) cnt)"

text \<open>
  \<open>validate_miner_transaction\<close> returns \<open>Some (reward, emissionChange)\<close> where the
  C++ function returns true with these values in its reference parameters, and
  \<open>None\<close> where it returns false. \<open>minerReward\<close> is the \<open>uint64_t\<close> accumulator of
  the loop over the coinbase outputs.
\<close>

definition minerReward :: "Block \<Rightarrow> u64" where
  "minerReward b = fold (\<lambda>out acc. acc + amount out) (outputs (baseTransaction b)) 0"

definition validate_miner_transaction ::
  "Env \<Rightarrow> Blockchain \<Rightarrow> Block \<Rightarrow> u32 \<Rightarrow> u64 \<Rightarrow> u64 \<Rightarrow> u64 \<Rightarrow> (u64 \<times> u64) option" where
  "validate_miner_transaction env st b h cumulativeBlockSize alreadyGeneratedCoins fee =
     (let lastBlocksSizes = get_last_n_blocks_sizes env st (rewardBlocksWindow (currency env));
          blocksSizeMedian = medianValue lastBlocksSizes;
          blockMajorVersion = getBlockMajorVersionForHeight (currency env) h
      in case getBlockReward (currency env) blockMajorVersion blocksSizeMedian
                cumulativeBlockSize alreadyGeneratedCoins fee of
           None \<Rightarrow> None
         | Some (reward, emissionChange) \<Rightarrow>
             if minerReward b > reward then None
             else if minerReward b < reward then None
             else Some (reward, emissionChange))"

section \<open>Transaction indexing: pushTransaction\<close>

text \<open>
  A \<open>for\<close> loop whose body can throw: the bodies run in order on the state, and a
  failure leaves the loop with the state reached so far.
\<close>

primrec iterate :: "('a \<Rightarrow> 's \<Rightarrow> unit outcome \<times> 's) \<Rightarrow> 'a list \<Rightarrow> 's \<Rightarrow> unit outcome \<times> 's" where
  "iterate f [] s = (Ok (), s)"
| "iterate f (x # xs) s =
     (case f x s of
        (Ok u, s') \<Rightarrow> iterate f xs s'
      | (Fail e, s') \<Rightarrow> (Fail e, s'))"

text \<open>
  The rollback of \<open>pushTransaction\<close> when \<open>put\<close> refuses the key image of input \<open>i\<close>:
  \<^verbatim>\<open>
  for (size_t j = 0; j < i; ++j) {
    Crypto::KeyImage ki = ::boost::get<KeyInput>(transaction.tx.inputs[i - 1 - j]).keyImage;
    m_db.del(kikey, true);
  }
  \<close>
  It is run on the inputs before \<open>i\<close>, last first. \<open>boost::get\<close> throws on an input
  that is not a \<open>KeyInput\<close>, \<open>del\<close> throws on a key image that is not recorded.
\<close>

definition unspend_step :: "TransactionInput \<Rightarrow> DB \<Rightarrow> unit outcome \<times> DB" where
  "unspend_step inp db =
     (case inp of
        KeyInput a offs ki \<Rightarrow>
          (case map_del (spent_key_images db) ki True of
             None \<Rightarrow> (Fail Exception, db)
           | Some m \<Rightarrow> (Ok (), db\<lparr>spent_key_images := m\<rparr>))
      | _ \<Rightarrow> (Fail Exception, db))"

text \<open>
  The loop that records the key images of the \<open>KeyInput\<close>s. \<open>done\<close> holds the inputs
  already passed, last first. The result is true when every key image was new; on
  the first one that \<open>put\<close> refuses, the key images of the inputs passed are
  deleted again, then the transaction's entry of the \<open>t/\<close> index, and the result is
  false.
\<close>

fun spend_key_images ::
  "u32 \<Rightarrow> Hash \<Rightarrow> TransactionInput list \<Rightarrow> TransactionInput list \<Rightarrow> DB \<Rightarrow> bool outcome \<times> DB" where
  "spend_key_images h txh done [] db = (Ok True, db)"
| "spend_key_images h txh done (KeyInput a offs ki # rest) db =
     (case map_put (spent_key_images db) ki (ucast h) True of
        Some m \<Rightarrow> spend_key_images h txh (KeyInput a offs ki # done) rest (db\<lparr>spent_key_images := m\<rparr>)
      | None \<Rightarrow>
          (case iterate unspend_step done db of
             (Fail e, db') \<Rightarrow> (Fail e, db')
           | (Ok u, db') \<Rightarrow>
               (case map_del (transactions_index db') txh True of
                  None \<Rightarrow> (Fail Exception, db')
                | Some t \<Rightarrow> (Ok False, db'\<lparr>transactions_index := t\<rparr>))))"
| "spend_key_images h txh done (inp # rest) db = spend_key_images h txh (inp # done) rest db"

text \<open>
  Marking the multisignature outputs that the inputs spend. Indexing the vector of
  an amount past its end is undefined; with no entry for the amount the source
  indexes an empty vector.
\<close>

definition use_multisignature_step :: "TransactionInput \<Rightarrow> DB \<Rightarrow> unit outcome \<times> DB" where
  "use_multisignature_step inp db =
     (case inp of
        MultisignatureInput a sc oi \<Rightarrow>
          (case multisignature_outputs db a of
             Some me \<Rightarrow>
               if unat oi < length me
               then (Ok (), db\<lparr>multisignature_outputs :=
                       (multisignature_outputs db)(a \<mapsto> me[unat oi := (me ! unat oi)\<lparr>isUsed := True\<rparr>])\<rparr>)
               else (Fail Undefined, db)
           | None \<Rightarrow> (Fail Undefined, db))
      | _ \<Rightarrow> (Ok (), db))"

text \<open>
  One step of the loop over the outputs; \<open>output\<close> is the \<open>uint16_t\<close> loop counter.
  The state of the loop is the store and the vector \<open>m_global_output_indexes\<close>.
\<close>

definition push_output_step ::
  "TransactionIndex \<Rightarrow> (nat \<times> TransactionOutput) \<Rightarrow> DB \<times> u32 list \<Rightarrow> unit outcome \<times> DB \<times> u32 list" where
  "push_output_step ti io s =
     (case s of (db, gi) \<Rightarrow>
      (case io of (output, out) \<Rightarrow>
       (case target out of
          KeyOutput k \<Rightarrow>
            (case outputs_index db (amount out) of
               Some oe \<Rightarrow>
                 (Ok (), db\<lparr>outputs_index := (outputs_index db)(amount out \<mapsto> oe @ [(ti, of_nat output)])\<rparr>,
                  gi[output := of_nat (length oe)])
             | None \<Rightarrow>
                 (Ok (), db\<lparr>outputs_index := (outputs_index db)(amount out \<mapsto> [(ti, of_nat output)])\<rparr>,
                  gi[output := 0]))
        | MultisignatureOutput ks rq \<Rightarrow>
            (case multisignature_outputs db (amount out) of
               Some me \<Rightarrow>
                 (Ok (), db\<lparr>multisignature_outputs := (multisignature_outputs db)(amount out \<mapsto>
                     me @ [\<lparr>transactionIndex = ti, outputIndex = of_nat output, isUsed = False\<rparr>])\<rparr>, gi)
             | None \<Rightarrow>
                 (Ok (), db\<lparr>multisignature_outputs := (multisignature_outputs db)(amount out \<mapsto>
                     [\<lparr>transactionIndex = ti, outputIndex = of_nat output, isUsed = False\<rparr>])\<rparr>, gi)))))"

text \<open>\<open>std::vector::resize\<close>: cut, or filled up with zeros.\<close>

definition resize :: "u32 list \<Rightarrow> nat \<Rightarrow> u32 list" where
  "resize v n = take n v @ replicate (n - length v) 0"

definition push_payment_id :: "Tools \<Rightarrow> Transaction \<Rightarrow> Hash \<Rightarrow> DB \<Rightarrow> DB" where
  "push_payment_id tls t txh db =
     (case getPaymentId tls t of
        None \<Rightarrow> db
      | Some paymentId \<Rightarrow>
          (case payment_id_index db paymentId of
             None \<Rightarrow> db\<lparr>payment_id_index := (payment_id_index db)(paymentId \<mapsto> [txh])\<rparr>
           | Some pe \<Rightarrow> db\<lparr>payment_id_index := (payment_id_index db)(paymentId \<mapsto> pe @ [txh])\<rparr>))"

text \<open>
  \<open>pushTransaction(block, transactionHash, transactionIndex)\<close> works on the store and
  on the entry \<open>block.transactions[transactionIndex.transaction]\<close>, whose global
  output indexes it fills in. It returns false when the transaction hash is already
  indexed, when two multisignature inputs spend one output, or when a key image is
  already recorded. The output loop counts with a \<open>uint16_t\<close>: on a transaction with
  \<open>2^16\<close> outputs or more the counter wraps and the loop runs until an allocation
  fails.
\<close>

definition pushTransaction ::
  "Tools \<Rightarrow> DB \<Rightarrow> BlockEntry \<Rightarrow> Hash \<Rightarrow> TransactionIndex \<Rightarrow> bool outcome \<times> DB \<times> BlockEntry" where
  "pushTransaction tls db blk transactionHash ti =
     (case map_put (transactions_index db) transactionHash ti True of
        None \<Rightarrow> (Ok False, db, blk)
      | Some t \<Rightarrow>
          let db1 = db\<lparr>transactions_index := t\<rparr>; pos = unat (transaction ti) in
          if \<not> pos < length (transactions blk) then (Fail Undefined, db1, blk)
          else
            let te = transactions blk ! pos in
            if \<not> checkMultisignatureInputsDiff tls (tx te)
            then (Ok False, db1\<lparr>transactions_index := (transactions_index db1)(transactionHash := None)\<rparr>, blk)
            else
              (case spend_key_images (height blk) transactionHash [] (inputs (tx te)) db1 of
                 (Fail e, db2) \<Rightarrow> (Fail e, db2, blk)
               | (Ok False, db2) \<Rightarrow> (Ok False, db2, blk)
               | (Ok True, db2) \<Rightarrow>
                   (case iterate use_multisignature_step (inputs (tx te)) db2 of
                      (Fail e, db3) \<Rightarrow> (Fail e, db3, blk)
                    | (Ok u, db3) \<Rightarrow>
                        if \<not> length (outputs (tx te)) < 2 ^ 16 then (Fail Exception, db3, blk)
                        else
                          (case iterate (push_output_step ti)
                                  (zip [0..<length (outputs (tx te))] (outputs (tx te)))
                                  (db3, resize (m_global_output_indexes te) (length (outputs (tx te)))) of
                             (Fail e, db4, gi) \<Rightarrow> (Fail e, db4, blk)
                           | (Ok u, db4, gi) \<Rightarrow>
                               (Ok True, push_payment_id tls (tx te) transactionHash db4,
                                blk\<lparr>transactions := (transactions blk)[pos := te\<lparr>m_global_output_indexes := gi\<rparr>]\<rparr>)))))"

section \<open>Transaction indexing: popTransaction\<close>

text \<open>
  One step of the loop of \<open>popTransaction\<close> over the outputs, last output first;
  \<open>pos\<close> is \<open>transaction.outputs.size() - 1 - outputIndex\<close>. Every \<open>continue\<close> of the
  source leaves the store as it is. The source pops the last element of the list it
  has read from the store and deletes the key when the list has become empty;
  it does not write a list that is still non-empty back.
\<close>

definition pop_output_step :: "TransactionIndex \<Rightarrow> (nat \<times> TransactionOutput) \<Rightarrow> DB \<Rightarrow> unit outcome \<times> DB" where
  "pop_output_step ti io db =
     (case io of (pos, out) \<Rightarrow>
      (case target out of
         KeyOutput k \<Rightarrow>
           (case outputs_index db (amount out) of
              None \<Rightarrow> (Ok (), db)
            | Some oe \<Rightarrow>
                if oe = [] then (Ok (), db)
                else if block (fst (last oe)) \<noteq> block ti \<or> transaction (fst (last oe)) \<noteq> transaction ti
                then (Ok (), db)
                else if unat (snd (last oe)) \<noteq> pos then (Ok (), db)
                else if butlast oe = []
                then (Ok (), db\<lparr>outputs_index := (outputs_index db)(amount out := None)\<rparr>)
                else (Ok (), db))
       | MultisignatureOutput ks rq \<Rightarrow>
           (case multisignature_outputs db (amount out) of
              None \<Rightarrow> (Ok (), db)
            | Some me \<Rightarrow>
                if me = [] then (Ok (), db)
                else if isUsed (last me) then (Ok (), db)
                else if block (transactionIndex (last me)) \<noteq> block ti
                        \<or> transaction (transactionIndex (last me)) \<noteq> transaction ti
                then (Ok (), db)
                else if unat (outputIndex (last me)) \<noteq> pos then (Ok (), db)
                else if butlast me = []
                then (Ok (), db\<lparr>multisignature_outputs := (multisignature_outputs db)(amount out := None)\<rparr>)
                else (Ok (), db))))"

text \<open>
  One step of the loop over the inputs. For a \<open>KeyInput\<close> the source deletes the key
  image with \<open>del(kikey, true)\<close>, which throws when it is not recorded. For a
  \<open>MultisignatureInput\<close> it clears \<open>isUsed\<close> in the list it has read and does not
  write the list back.
\<close>

definition pop_input_step :: "TransactionInput \<Rightarrow> DB \<Rightarrow> unit outcome \<times> DB" where
  "pop_input_step inp db =
     (case inp of
        KeyInput a offs ki \<Rightarrow>
          (case map_del (spent_key_images db) ki True of
             None \<Rightarrow> (Fail Exception, db)
           | Some m \<Rightarrow> (Ok (), db\<lparr>spent_key_images := m\<rparr>))
      | MultisignatureInput a sc oi \<Rightarrow>
          (case multisignature_outputs db a of
             None \<Rightarrow> (Ok (), db)
           | Some me \<Rightarrow> if unat oi < length me then (Ok (), db) else (Fail Undefined, db))
      | BaseInput bi \<Rightarrow> (Ok (), db))"

definition popTransaction :: "Tools \<Rightarrow> DB \<Rightarrow> Transaction \<Rightarrow> Hash \<Rightarrow> unit outcome \<times> DB" where
  "popTransaction tls db t transactionHash =
     (case transactions_index db transactionHash of
        None \<Rightarrow> (Ok (), db)
      | Some ti \<Rightarrow>
          (case iterate (pop_output_step ti) (rev (zip [0..<length (outputs t)] (outputs t))) db of
             (Fail e, db1) \<Rightarrow> (Fail e, db1)
           | (Ok u, db1) \<Rightarrow>
               (case iterate pop_input_step (inputs t) db1 of
                  (Fail e, db2) \<Rightarrow> (Fail e, db2)
                | (Ok u, db2) \<Rightarrow>
                    let db3 = (case getPaymentId tls t of
                                 None \<Rightarrow> db2
                               | Some paymentId \<Rightarrow>
                                   db2\<lparr>payment_id_index := (payment_id_index db2)(paymentId := None)\<rparr>)
                    in (Ok (), db3\<lparr>transactions_index := (transactions_index db3)(transactionHash := None)\<rparr>))))"

text \<open>
  \<^verbatim>\<open>
  for (size_t i = 0; i < block.transactions.size() - 1; ++i)
    popTransaction(block.transactions[block.transactions.size() - 1 - i].tx,
                   block.bl.transactionHashes[block.transactions.size() - 2 - i]);
  popTransaction(block.bl.baseTransaction, minerTransactionHash);
  \<close>
  On an entry without transactions the bound \<open>size() - 1\<close> wraps around and the first
  step indexes past the end.
\<close>

definition popTransactions :: "Tools \<Rightarrow> DB \<Rightarrow> BlockEntry \<Rightarrow> Hash \<Rightarrow> unit outcome \<times> DB" where
  "popTransactions tls db blk minerTransactionHash =
     (let n = length (transactions blk) in
      if n = 0 then (Fail Undefined, db)
      else
        (case iterate
                (\<lambda>i d. if n - 2 - i < length (transactionHashes (bl blk))
                        then popTransaction tls d (tx (transactions blk ! (n - 1 - i)))
                               (transactionHashes (bl blk) ! (n - 2 - i))
                        else (Fail Undefined, d))
                [0..<n - 1] db of
           (Fail e, db1) \<Rightarrow> (Fail e, db1)
         | (Ok u, db1) \<Rightarrow> popTransaction tls db1 (baseTransaction (bl blk)) minerTransactionHash))"

section \<open>Pushing and removing a block entry\<close>

text \<open>
  \<open>pushBlock(BlockEntry& block, const Crypto::Hash& blockHash)\<close>: the block record,
  the height index, the timestamp index (an entry that exists is put back as it
  was read), the count of generated transactions, the cached height. \<open>db_commit\<close>
  makes the buffered writes durable and changes no value.
\<close>

definition pushBlock_entry :: "Blockchain \<Rightarrow> BlockEntry \<Rightarrow> Hash \<Rightarrow> bool outcome \<times> Blockchain" where
  "pushBlock_entry st blk blockHash =
     (let db = m_db st in
      case map_put (blocks db) blockHash blk True of
        None \<Rightarrow> (Fail Exception, st)
      | Some b \<Rightarrow>
          let db1 = db\<lparr>blocks := b\<rparr> in
          (case bi_put (block_index db1) (ucast (height blk)) blockHash True of
             None \<Rightarrow> (Fail Exception, st\<lparr>m_db := db1\<rparr>)
           | Some bi \<Rightarrow>
               let db2 = db1\<lparr>block_index := bi\<rparr>;
                   db3 = (case timestamp_index db2 (timestamp (bl blk)) of
                            None \<Rightarrow> db2\<lparr>timestamp_index :=
                                        (timestamp_index db2)(timestamp (bl blk) \<mapsto> [(height blk, blockHash)])\<rparr>
                          | Some tse \<Rightarrow> db2)
               in if height blk > 0 then
                    let n = m_lastGeneratedTxNumber st + (of_nat (length (transactionHashes (bl blk))) + 1) in
                    (case map_put (generated_transactions_index db3) (ucast (height blk)) n True of
                       None \<Rightarrow> (Fail Exception, st\<lparr>m_db := db3, m_lastGeneratedTxNumber := n\<rparr>)
                     | Some g \<Rightarrow>
                         (Ok True, st\<lparr>m_db := db3\<lparr>generated_transactions_index := g\<rparr>,
                                      m_lastGeneratedTxNumber := n,
                                      m_height := height blk + 1\<rparr>))
                  else (Ok True, st\<lparr>m_db := db3, m_height := height blk + 1\<rparr>)))"

text \<open>
  \<open>removeLastBlock\<close>. The cursor gives the greatest key \<open>tip\<close> of the height index and
  the source computes \<open>height = tip + 1\<close>; \<open>integer_cast<uint32_t>\<close> throws on a key
  that does not fit. The keys it deletes in the \<open>g/\<close> and \<open>b/\<close> key spaces are those of
  \<open>height\<close>. The last statements are
  \<^verbatim>\<open>
  uint32_t temp_height = m_height.load(std::memory_order_relaxed);
  m_height.store(temp_height--, std::memory_order_relaxed);
  \<close>
  and a post-decrement yields the value before the decrement.
\<close>

definition removeLastBlock :: "Env \<Rightarrow> Blockchain \<Rightarrow> unit outcome \<times> Blockchain" where
  "removeLastBlock env st =
     (let db = m_db st in
      case cursor_rbegin (block_index db) of
        None \<Rightarrow> (Ok (), st)
      | Some (tip, blockHash) \<Rightarrow>
          if \<not> tip \<le> 0xFFFFFFFF then (Fail Exception, st)
          else
            let h = (ucast tip :: u32) + 1;
                e = (case blocks db blockHash of Some e \<Rightarrow> e | None \<Rightarrow> uninitialized_entry env)
            in
            (case popTransactions (tools env) db e (getObjectHash (tools env) (baseTransaction (bl e))) of
               (Fail f, db1) \<Rightarrow> (Fail f, st\<lparr>m_db := db1\<rparr>)
             | (Ok u, db1) \<Rightarrow>
                 let db2 = db1\<lparr>timestamp_index := (timestamp_index db1)(timestamp (bl e) := None)\<rparr>;
                     n = m_lastGeneratedTxNumber st - (of_nat (length (transactionHashes (bl e))) + 1);
                     db3 = db2\<lparr>generated_transactions_index :=
                                 (generated_transactions_index db2)(ucast h := None)\<rparr>
                 in
                 (case map_del (blocks db3) blockHash True of
                    None \<Rightarrow> (Fail Exception, st\<lparr>m_db := db3, m_lastGeneratedTxNumber := n\<rparr>)
                  | Some b \<Rightarrow>
                      let db4 = db3\<lparr>blocks := b\<rparr> in
                      (case bi_del (block_index db4) (ucast h) True of
                         None \<Rightarrow> (Fail Exception, st\<lparr>m_db := db4, m_lastGeneratedTxNumber := n\<rparr>)
                       | Some bi \<Rightarrow>
                           let temp_height = m_height st in
                           (Ok (), st\<lparr>m_db := db4\<lparr>block_index := bi\<rparr>,
                                     m_lastGeneratedTxNumber := n,
                                     m_height := temp_height\<rparr>)))))"

text \<open>
  \<open>saveTransactions\<close> gives the transactions back to the pool, last first.
  \<open>popBlock\<close> saves the transactions of the tip entry but the first (the coinbase)
  and removes the last block; the vector of \<open>e.transactions.size() - 1\<close> elements
  cannot be allocated when the entry has no transactions.
\<close>

definition saveTransactions :: "Tools \<Rightarrow> Transaction list \<Rightarrow> Blockchain \<Rightarrow> Blockchain" where
  "saveTransactions tls txs st =
     st\<lparr>m_tx_pool := fold (\<lambda>t p. p(getObjectHash tls t \<mapsto> t)) (rev txs) (m_tx_pool st)\<rparr>"

definition popBlock :: "Env \<Rightarrow> Blockchain \<Rightarrow> unit outcome \<times> Blockchain" where
  "popBlock env st =
     (case cursor_rbegin (block_index (m_db st)) of
        None \<Rightarrow> (Ok (), st)
      | Some (tip, blockHash) \<Rightarrow>
          let e = (case blocks (m_db st) blockHash of Some e \<Rightarrow> e | None \<Rightarrow> uninitialized_entry env) in
          if transactions e = [] then (Fail Exception, st)
          else removeLastBlock env (saveTransactions (tools env) (map tx (tl (transactions e))) st))"

text \<open>
  \<open>rollbackBlockchainTo\<close>: \<open>while (height + 1 < m_height) removeLastBlock();\<close>. The
  loop has no bound of its own, so the model returns \<open>None\<close> when it does not return.
\<close>

partial_function (option) rollbackBlockchainTo :: "Env \<Rightarrow> u32 \<Rightarrow> Blockchain \<Rightarrow> (unit outcome \<times> Blockchain) option" where
  "rollbackBlockchainTo env h st =
     (if h + 1 < m_height st then
        (case removeLastBlock env st of
           (Fail f, st') \<Rightarrow> Some (Fail f, st')
         | (Ok u, st') \<Rightarrow> rollbackBlockchainTo env h st')
      else Some (Ok (), st))"

section \<open>Reading the chain\<close>

definition getTailId :: "Blockchain \<Rightarrow> Hash" where
  "getTailId st =
     (case cursor_rbegin (block_index (m_db st)) of
        None \<Rightarrow> NULL_HASH
      | Some (tip, tail_id) \<Rightarrow> tail_id)"

definition haveBlock :: "Blockchain \<Rightarrow> Hash \<Rightarrow> bool" where
  "haveBlock st bid =
     (if blocks (m_db st) bid \<noteq> None then True
      else if m_alternative_chains st bid \<noteq> None then True
      else False)"

definition checkIfSpent :: "Blockchain \<Rightarrow> KeyImage \<Rightarrow> bool" where
  "checkIfSpent st keyImage =
     (if spent_key_images (m_db st) keyImage \<noteq> None then True else False)"

definition have_tx_keyimg_as_spent :: "Blockchain \<Rightarrow> KeyImage \<Rightarrow> bool" where
  "have_tx_keyimg_as_spent st key_im = checkIfSpent st key_im"

definition isInCheckpointZone :: "Env \<Rightarrow> u32 \<Rightarrow> bool" where
  "isInCheckpointZone env h = is_in_checkpoint_zone (checkpoints env) h"

definition checkBlockVersion :: "Env \<Rightarrow> Block \<Rightarrow> bool" where
  "checkBlockVersion env b =
     (let h = get_block_height (tools env) b;
          expectedBlockVersion = getBlockMajorVersionForHeight (currency env) h
      in if majorVersion b \<noteq> expectedBlockVersion then False else True)"

definition checkCumulativeBlockSize :: "Env \<Rightarrow> u64 \<Rightarrow> u64 \<Rightarrow> bool" where
  "checkCumulativeBlockSize env cumulativeBlockSize h =
     (if cumulativeBlockSize > maxBlockCumulativeSize (currency env) h then False else True)"

text \<open>
  \<open>getDifficultyForNextBlock\<close>: the loop over the height index runs while
  \<open>offset < m_height || !cur.end()\<close>.
\<close>

definition getDifficultyForNextBlock :: "Env \<Rightarrow> Blockchain \<Rightarrow> u64" where
  "getDifficultyForNextBlock env st =
     (let BlockMajorVersion = getBlockMajorVersionForHeight (currency env) (m_height st);
          h = (ucast (m_height st) :: u64);
          offset0 = h - min h (difficultyBlocksCountByBlockVersion (currency env) BlockMajorVersion);
          offset = (if offset0 = 0 then offset0 + 1 else offset0);
          cur = cursor_begin (block_index (m_db st)) offset;
          n = max (if offset < h then unat (h - offset) else 0) (length cur);
          es = map (entry_at_cursor env (m_db st) cur) [0..<n]
      in nextDifficulty (currency env) (m_height st) BlockMajorVersion
           (map (\<lambda>e. timestamp (bl e)) es) (map cumulative_difficulty es))"

definition update_next_cumulative_size_limit :: "Env \<Rightarrow> Blockchain \<Rightarrow> Blockchain" where
  "update_next_cumulative_size_limit env st =
     (let nextBlockMajorVersion = getBlockMajorVersionForHeight (currency env) (m_height st);
          nextBlockGrantedFullRewardZone =
            blockGrantedFullRewardZoneByBlockVersion (currency env) nextBlockMajorVersion;
          sz = get_last_n_blocks_sizes env st (rewardBlocksWindow (currency env));
          median0 = medianValue sz;
          median = (if median0 \<le> nextBlockGrantedFullRewardZone
                    then nextBlockGrantedFullRewardZone else median0)
      in st\<lparr>m_current_block_cumul_sz_limit := median * 2\<rparr>)"

section \<open>Checking the inputs of a transaction\<close>

text \<open>
  The loop of \<open>checkTransactionInputs\<close> from input \<open>i\<close> on; \<open>inputIndex\<close> counts every
  input passed, so it is the position of the input. The signatures of an input are
  read as \<open>tx.signatures[inputIndex]\<close> (the bound is an \<open>assert\<close> only).
\<close>

fun checkTransactionInputs_from :: "Env \<Rightarrow> Blockchain \<Rightarrow> Transaction \<Rightarrow> nat \<Rightarrow> TransactionInput list \<Rightarrow> bool outcome" where
  "checkTransactionInputs_from env st t i [] = Ok True"
| "checkTransactionInputs_from env st t i (KeyInput a offs ki # rest) =
     (if offs = [] then Ok False
      else if have_tx_keyimg_as_spent st ki then Ok False
      else if \<not> isInCheckpointZone env (getCurrentBlockchainHeight st) then
        (if \<not> i < length (signatures t) then Fail Undefined
         else if \<not> check_tx_input env st t i then Ok False
         else checkTransactionInputs_from env st t (Suc i) rest)
      else checkTransactionInputs_from env st t (Suc i) rest)"
| "checkTransactionInputs_from env st t i (MultisignatureInput a sc oi # rest) =
     (if \<not> isInCheckpointZone env (getCurrentBlockchainHeight st) then
        (if \<not> i < length (signatures t) then Fail Undefined
         else if \<not> validateInput env st t i then Ok False
         else checkTransactionInputs_from env st t (Suc i) rest)
      else checkTransactionInputs_from env st t (Suc i) rest)"
| "checkTransactionInputs_from env st t i (BaseInput bi # rest) = Ok False"

definition checkTransactionInputs :: "Env \<Rightarrow> Blockchain \<Rightarrow> Transaction \<Rightarrow> bool outcome" where
  "checkTransactionInputs env st t = checkTransactionInputs_from env st t 0 (inputs t)"

section \<open>pushBlock: adding a block to the main chain\<close>

record block_verification_context =
  m_added_to_main_chain :: bool
  m_verification_failed :: bool
  m_marked_as_orphaned :: bool
  m_already_exists :: bool
  m_switched_to_alt_chain :: bool

text \<open>
  The checks of \<open>pushBlock(blockData, transactions, blockHash, bvc)\<close> that come before
  it touches the store. \<open>Rejected vf\<close> is a \<open>return false\<close>, with \<open>vf\<close> telling whether
  \<open>bvc.m_verification_failed\<close> was set before it; \<open>Passed d\<close> carries the difficulty
  computed for the block.
\<close>

datatype precheck = Rejected bool | Failed failure | Passed u64

definition pushBlock_prechecks :: "Env \<Rightarrow> Blockchain \<Rightarrow> Block \<Rightarrow> Hash \<Rightarrow> precheck" where
  "pushBlock_prechecks env st blockData blockHash =
     (if \<not> checkBlockVersion env blockData then Rejected True
      else if majorVersion blockData \<ge> BLOCK_MAJOR_VERSION_5
              \<and> getMergeMiningTagFromExtra (tools env) (extra (baseTransaction blockData))
      then Rejected False
      else if previousBlockHash blockData \<noteq> getTailId st then Rejected True
      else
        (case (if \<not> is_in_checkpoint_zone (checkpoints env) (getCurrentBlockchainHeight st)
               then check_block_timestamp_main env st blockData else Ok True) of
           Fail f \<Rightarrow> Failed f
         | Ok False \<Rightarrow> Rejected True
         | Ok True \<Rightarrow>
             let currentDifficulty = getDifficultyForNextBlock env st in
             if currentDifficulty = 0 then Rejected False
             else if (if is_in_checkpoint_zone (checkpoints env) (getCurrentBlockchainHeight st)
                      then \<not> fst (check_block (checkpoints env) (getCurrentBlockchainHeight st) blockHash)
                      else \<not> checkProofOfWork (currency env) blockData currentDifficulty)
             then Rejected True
             else if \<not> is_in_checkpoint_zone (checkpoints env) (getCurrentBlockchainHeight st)
                     \<and> \<not> prevalidate_miner_transaction (currency env) blockData (m_height st)
             then Rejected True
             else Passed currentDifficulty))"

text \<open>
  The state of the loop over the transactions of the block: the engine, the entry
  \<open>block\<close> under construction, \<open>transactionIndex\<close>, \<open>cumulative_block_size\<close>,
  \<open>fee_summary\<close> and the verification context \<open>bvc\<close> of the caller.
\<close>

record push_loop =
  l_st :: Blockchain
  l_block :: BlockEntry
  l_index :: TransactionIndex
  l_size :: u64
  l_fee :: u64
  l_bvc :: block_verification_context

text \<open>
  The loop from transaction \<open>i\<close> on. \<open>Ok True\<close>: all transactions were indexed.
  \<open>Ok False\<close>: the inputs of one were refused, \<open>m_verification_failed\<close> was set, the
  transactions indexed so far were popped and \<open>pushBlock\<close> returns false. The
  result of \<open>pushTransaction\<close> is not looked at.
\<close>

fun push_block_transactions ::
  "Env \<Rightarrow> Block \<Rightarrow> Hash \<Rightarrow> nat \<Rightarrow> Transaction list \<Rightarrow> push_loop \<Rightarrow> bool outcome \<times> push_loop" where
  "push_block_transactions env blockData minerTransactionHash i [] l = (Ok True, l)"
| "push_block_transactions env blockData minerTransactionHash i (t # rest) l =
     (if \<not> i < length (transactionHashes blockData) then (Fail Undefined, l)
      else
        let tx_id = transactionHashes blockData ! i;
            blk = (l_block l)\<lparr>transactions :=
                      transactions (l_block l) @ [\<lparr>tx = t, m_global_output_indexes = []\<rparr>]\<rparr>;
            blob_size = getObjectBinarySize (tools env) t;
            fee = getInputAmount (tools env) t - getOutputAmount (tools env) t
        in
        (case (if \<not> is_in_checkpoint_zone (checkpoints env) (getCurrentBlockchainHeight (l_st l))
               then checkTransactionInputs env (l_st l) t else Ok True) of
           Fail f \<Rightarrow> (Fail f, l\<lparr>l_block := blk\<rparr>)
         | Ok False \<Rightarrow>
             let failed = (l_bvc l)\<lparr>m_verification_failed := True\<rparr> in
             (case popTransactions (tools env) (m_db (l_st l)) (l_block l) minerTransactionHash of
                (Fail f, db1) \<Rightarrow> (Fail f, l\<lparr>l_st := (l_st l)\<lparr>m_db := db1\<rparr>, l_bvc := failed\<rparr>)
              | (Ok u, db1) \<Rightarrow> (Ok False, l\<lparr>l_st := (l_st l)\<lparr>m_db := db1\<rparr>, l_bvc := failed\<rparr>))
         | Ok True \<Rightarrow>
             let ti = (l_index l)\<lparr>transaction := transaction (l_index l) + 1\<rparr> in
             (case pushTransaction (tools env) (m_db (l_st l)) blk tx_id ti of
                (Fail f, db1, blk1) \<Rightarrow>
                  (Fail f, l\<lparr>l_st := (l_st l)\<lparr>m_db := db1\<rparr>, l_block := blk1, l_index := ti\<rparr>)
              | (Ok r, db1, blk1) \<Rightarrow>
                  push_block_transactions env blockData minerTransactionHash (Suc i) rest
                    (l\<lparr>l_st := (l_st l)\<lparr>m_db := db1\<rparr>, l_block := blk1, l_index := ti,
                       l_size := l_size l + blob_size, l_fee := l_fee l + fee\<rparr>))))"

text \<open>
  \<open>pushBlock(blockData, transactions, blockHash, bvc)\<close> after its checks. The cached
  height is first set from the tip of the height index. Where the size check
  fails the source returns without popping the transactions it has indexed.
\<close>

definition pushBlock_index ::
  "Env \<Rightarrow> Blockchain \<Rightarrow> Block \<Rightarrow> Transaction list \<Rightarrow> Hash \<Rightarrow> block_verification_context \<Rightarrow> u64
     \<Rightarrow> bool outcome \<times> Blockchain \<times> block_verification_context" where
  "pushBlock_index env st blockData txs blockHash bvc currentDifficulty =
     (let minerTransactionHash = getObjectHash (tools env) (baseTransaction blockData);
          cur = cursor_rbegin (block_index (m_db st))
      in
      if (case cur of None \<Rightarrow> False | Some (tip, v) \<Rightarrow> \<not> tip \<le> 0xFFFFFFFF) then (Fail Exception, st, bvc)
      else
        let st1 = st\<lparr>m_height := (case cur of None \<Rightarrow> 0 | Some (tip, v) \<Rightarrow> ucast tip + 1)\<rparr>;
            e = (case cur of
                   None \<Rightarrow> uninitialized_entry env
                 | Some (tip, v) \<Rightarrow>
                     (case blocks (m_db st) v of Some e \<Rightarrow> e | None \<Rightarrow> uninitialized_entry env));
            blk = (uninitialized_entry env)\<lparr>bl := blockData, height := m_height st1,
                     transactions := [\<lparr>tx = baseTransaction blockData, m_global_output_indexes = []\<rparr>]\<rparr>;
            transactionIndex = \<lparr>block = m_height st1, transaction = 0\<rparr>
        in
        (case pushTransaction (tools env) (m_db st1) blk minerTransactionHash transactionIndex of
           (Fail f, db1, blk1) \<Rightarrow> (Fail f, st1\<lparr>m_db := db1\<rparr>, bvc)
         | (Ok r, db1, blk1) \<Rightarrow>
             (case push_block_transactions env blockData minerTransactionHash 0 txs
                     \<lparr>l_st = st1\<lparr>m_db := db1\<rparr>, l_block = blk1, l_index = transactionIndex,
                      l_size = getObjectBinarySize (tools env) (baseTransaction blockData), l_fee = 0,
                      l_bvc = bvc\<rparr> of
                (Fail f, l) \<Rightarrow> (Fail f, l_st l, l_bvc l)
              | (Ok False, l) \<Rightarrow> (Ok False, l_st l, l_bvc l)
              | (Ok True, l) \<Rightarrow>
                  let st2 = l_st l; bvc2 = l_bvc l in
                  if \<not> checkCumulativeBlockSize env (l_size l) (ucast (m_height st2))
                  then (Ok False, st2, bvc2\<lparr>m_verification_failed := True\<rparr>)
                  else
                    let agc = (case cur of None \<Rightarrow> 0 | Some c \<Rightarrow> already_generated_coins e) in
                    (case (if \<not> is_in_checkpoint_zone (checkpoints env) (getCurrentBlockchainHeight st2)
                           then validate_miner_transaction env st2 blockData (m_height st2)
                                  (l_size l) agc (l_fee l)
                           else Some (0, 0)) of
                       None \<Rightarrow>
                         (case popTransactions (tools env) (m_db st2) (l_block l) minerTransactionHash of
                            (Fail f, db2) \<Rightarrow> (Fail f, st2\<lparr>m_db := db2\<rparr>, bvc2\<lparr>m_verification_failed := True\<rparr>)
                          | (Ok u, db2) \<Rightarrow> (Ok False, st2\<lparr>m_db := db2\<rparr>, bvc2\<lparr>m_verification_failed := True\<rparr>))
                     | Some (reward, emissionChange) \<Rightarrow>
                         let blk2 = (l_block l)\<lparr>
                               block_cumulative_size := l_size l,
                               cumulative_difficulty :=
                                 (case cur of None \<Rightarrow> currentDifficulty
                                  | Some c \<Rightarrow> currentDifficulty + cumulative_difficulty e),
                               already_generated_coins := agc + emissionChange\<rparr>
                         in
                         (case pushBlock_entry st2 blk2 blockHash of
                            (Fail f, st3) \<Rightarrow> (Fail f, st3, bvc2)
                          | (Ok r, st3) \<Rightarrow>
                              (Ok True, update_next_cumulative_size_limit env st3,
                               bvc2\<lparr>m_added_to_main_chain := True\<rparr>))))))"

definition pushBlock_txs ::
  "Env \<Rightarrow> Blockchain \<Rightarrow> Block \<Rightarrow> Transaction list \<Rightarrow> Hash \<Rightarrow> block_verification_context
     \<Rightarrow> bool outcome \<times> Blockchain \<times> block_verification_context" where
  "pushBlock_txs env st blockData txs blockHash bvc =
     (case pushBlock_prechecks env st blockData blockHash of
        Rejected vf \<Rightarrow> (Ok False, st, if vf then bvc\<lparr>m_verification_failed := True\<rparr> else bvc)
      | Failed f \<Rightarrow> (Fail f, st, bvc)
      | Passed currentDifficulty \<Rightarrow> pushBlock_index env st blockData txs blockHash bvc currentDifficulty)"

section \<open>Alternative blocks\<close>

text \<open>
  \<open>complete_timestamps_vector\<close> fills \<open>timestamps\<close> up to the check window with the
  timestamps of main-chain blocks, from \<open>start_top_height\<close> downwards:
  \<^verbatim>\<open>
  do { ... timestamps.push_back(e.bl.timestamp);
       if (start_top_height == 0) break;
       --start_top_height;
  } while (start_top_height != stop_offset);
  \<close>
  It returns early, with what it has collected, at a height without an entry in the
  height index or without a block record. Its callers do not look at its result.
\<close>

primrec collect_timestamps :: "DB \<Rightarrow> u64 list \<Rightarrow> u64 list" where
  "collect_timestamps db [] = []"
| "collect_timestamps db (h # hs) =
     (case map_of (block_index db) h of
        None \<Rightarrow> []
      | Some bh \<Rightarrow>
          (case blocks db bh of
             None \<Rightarrow> []
           | Some e \<Rightarrow> timestamp (bl e) # collect_timestamps db hs))"

definition complete_timestamps_vector :: "Env \<Rightarrow> Blockchain \<Rightarrow> u8 \<Rightarrow> u64 \<Rightarrow> u64 list \<Rightarrow> u64 list" where
  "complete_timestamps_vector env st blockMajorVersion start_top_height timestamps =
     (let w = timestampCheckWindow (currency env) blockMajorVersion in
      if length timestamps \<ge> unat w then timestamps
      else
        let need_elements = w - of_nat (length timestamps) in
        if \<not> start_top_height < ucast (m_height st) then timestamps
        else
          let stop_offset = (if start_top_height > need_elements
                             then start_top_height - need_elements else 0);
              heights = (if start_top_height = 0 then [0]
                         else rev (map of_nat [Suc (unat stop_offset) ..< Suc (unat start_top_height)]))
          in timestamps @ collect_timestamps (m_db st) heights)"

text \<open>
  The walk of \<open>handle_alternative_block\<close> through the map of alternative blocks, from
  the parent of the new block back to the main chain; the chain is built front
  (oldest) to back. The walk ends at a hash that is not in the map; the model
  returns \<open>None\<close> when it does not end.
\<close>

partial_function (option) build_alt_chain ::
  "(Hash \<rightharpoonup> BlockEntry) \<Rightarrow> Hash \<Rightarrow> (Hash \<times> BlockEntry) list \<Rightarrow> (Hash \<times> BlockEntry) list option" where
  "build_alt_chain alts h acc =
     (case alts h of
        None \<Rightarrow> Some acc
      | Some e \<Rightarrow> build_alt_chain alts (previousBlockHash (bl e)) ((h, e) # acc))"

text \<open>
  \<open>get_next_difficulty_for_alternative_chain(alt_chain, bei)\<close>; of \<open>bei\<close> it reads the
  height only. A result of 0 stands for the \<open>return false\<close> of its internal check
  as well. With a difficulty window of 0 blocks the second branch indexes an empty
  vector.
\<close>

definition get_next_difficulty_for_alternative_chain ::
  "Env \<Rightarrow> Blockchain \<Rightarrow> (Hash \<times> BlockEntry) list \<Rightarrow> u32 \<Rightarrow> u64 outcome" where
  "get_next_difficulty_for_alternative_chain env st alt_chain bei_height =
     (let BlockMajorVersion = getBlockMajorVersionForHeight (currency env) (m_height st);
          dcount = difficultyBlocksCountByBlockVersion (currency env) BlockMajorVersion
      in
      if length alt_chain < unat dcount then
        let main_chain_stop_offset =
              (if alt_chain \<noteq> [] then ucast (height (snd (hd alt_chain))) else (ucast bei_height :: u64));
            main_chain_count0 = dcount - min dcount (of_nat (length alt_chain));
            main_chain_count = min main_chain_count0 main_chain_stop_offset;
            start0 = main_chain_stop_offset - main_chain_count;
            main_chain_start_offset = (if start0 = 0 then start0 + 1 else start0);
            cur = cursor_begin (block_index (m_db st)) main_chain_start_offset;
            n = (if main_chain_start_offset < main_chain_stop_offset
                 then unat (main_chain_stop_offset - main_chain_start_offset) else 0);
            es = map (entry_at_cursor env (m_db st) cur) [0..<n]
        in
        if \<not> (length alt_chain + length es \<le> unat dcount) then Ok 0
        else Ok (nextDifficulty (currency env) (m_height st) BlockMajorVersion
                   (map (\<lambda>e. timestamp (bl e)) es @ map (\<lambda>p. timestamp (bl (snd p))) alt_chain)
                   (map cumulative_difficulty es @ map (\<lambda>p. cumulative_difficulty (snd p)) alt_chain))
      else
        if dcount = 0 \<and> alt_chain \<noteq> [] then Fail Undefined
        else
          let recent = drop (length alt_chain - unat dcount) alt_chain in
          Ok (nextDifficulty (currency env) (m_height st) BlockMajorVersion
                (map (\<lambda>p. timestamp (bl (snd p))) recent)
                (map (\<lambda>p. cumulative_difficulty (snd p)) recent)))"

text \<open>
  The decision that ends \<open>handle_alternative_block\<close>, once the new entry \<open>bei\<close> is in
  the map of alternative blocks:
  \<^verbatim>\<open>
  if (is_a_checkpoint) { ... switch_to_alternative_blockchain(alt_chain, true) ... }
  else if (tip_be.cumulative_difficulty < bei.cumulative_difficulty) {
    ... switch_to_alternative_blockchain(alt_chain, false) ... }
  else { ... BLOCK ADDED AS ALTERNATIVE ... }
  \<close>
\<close>

datatype reorg_decision = Reorganize_checkpoint | Reorganize_difficulty | Keep_alternative

definition alternative_block_decision :: "bool \<Rightarrow> BlockEntry \<Rightarrow> BlockEntry \<Rightarrow> reorg_decision" where
  "alternative_block_decision is_a_checkpoint tip_be bei =
     (if is_a_checkpoint then Reorganize_checkpoint
      else if cumulative_difficulty tip_be < cumulative_difficulty bei then Reorganize_difficulty
      else Keep_alternative)"

text \<open>
  The entry \<open>tip_be\<close> of that comparison is filled by
  \<^verbatim>\<open>
  DB::Cursor cur = m_db.rbegin(BLOCK_INDEX_PREFIX);
  BinaryArray tip_ba = cur.get_value_array();
  BlockEntry tip_be;
  fromBinaryArray(tip_be, tip_ba);
  \<close>
  The value under a key of the height index is the 32-byte hash of the block
  (\<open>pushBlock\<close> puts \<open>blockHash.as_binary_array()\<close> there, and \<open>getTailId\<close>, \<open>popBlock\<close>
  and \<open>removeLastBlock\<close> copy it into a hash and get the block record of that hash).
  Here the hash bytes themselves are parsed as a \<open>BlockEntry\<close>. The serialisation
  of a \<open>BlockEntry\<close> holds a block header with the hash of the previous block and a
  coinbase transaction and is longer than 32 bytes, so this parse fails; its result
  is not looked at, and \<open>tip_be\<close> stays as \<open>BlockEntry tip_be;\<close> left it.
\<close>

definition tip_be_of_handle_alternative_block :: "Env \<Rightarrow> Blockchain \<Rightarrow> BlockEntry" where
  "tip_be_of_handle_alternative_block env st = uninitialized_entry env"

text \<open>
  \<open>handle_alternative_block\<close> for a block whose parent is known, with the alternative
  chain \<open>alt_chain\<close> that leads to the parent. \<open>switch_to_alternative_blockchain\<close>,
  which calls \<open>handle_alternative_block\<close> back for the blocks it disconnects, is
  the argument \<open>switch\<close>; the two are tied together where
  \<open>switch_to_alternative_blockchain\<close> is defined, further down. The model
  returns \<open>None\<close> when \<open>switch\<close> does not return. \<open>bei\<close> is value-initialised: its
  fields are zero or empty but those the function sets. The explorer's index of
  orphan blocks, which the engine does not read, is left out.
\<close>

definition handle_alternative_block_chain ::
  "Env \<Rightarrow> (Blockchain \<Rightarrow> (Hash \<times> BlockEntry) list \<Rightarrow> bool \<Rightarrow> (bool outcome \<times> Blockchain) option) \<Rightarrow> bool
     \<Rightarrow> Blockchain \<Rightarrow> Block \<Rightarrow> Hash \<Rightarrow> block_verification_context
     \<Rightarrow> (Hash \<times> BlockEntry) list \<Rightarrow> u32
     \<Rightarrow> (bool outcome \<times> Blockchain \<times> block_verification_context) option" where
  "handle_alternative_block_chain env switch sendNewAlternativeBlockMessage st b bid bvc alt_chain mainPrevHeight =
     (let timestamps0 = map (\<lambda>p. timestamp (bl (snd p))) (rev alt_chain);
          connected =
            (if alt_chain \<noteq> [] then
               let front = snd (hd alt_chain) in
               if \<not> m_height st > height front then None
               else
                 (case map_of (block_index (m_db st)) (ucast (height front - 1)) of
                    None \<Rightarrow> None
                  | Some h \<Rightarrow>
                      if \<not> h = previousBlockHash (bl front) then None
                      else Some (complete_timestamps_vector env st (majorVersion b)
                                   (ucast (height front - 1)) timestamps0))
             else Some (complete_timestamps_vector env st (majorVersion b)
                          (ucast mainPrevHeight) timestamps0))
      in
      case connected of
        None \<Rightarrow> Some (Ok False, st, bvc)
      | Some timestamps \<Rightarrow>
          if \<not> check_block_timestamp (currency env) timestamps b
          then Some (Ok False, st, bvc\<lparr>m_verification_failed := True\<rparr>)
          else
            let bei_height = (if alt_chain \<noteq> [] then height (snd (last alt_chain)) + 1
                              else mainPrevHeight + 1);
                chk = check_block (checkpoints env) bei_height bid
            in
            if \<not> fst chk then Some (Ok False, st, bvc\<lparr>m_verification_failed := True\<rparr>)
            else if majorVersion b \<ge> BLOCK_MAJOR_VERSION_5
                    \<and> getMergeMiningTagFromExtra (tools env) (extra (baseTransaction b))
            then Some (Ok False, st, bvc)
            else
              (case get_next_difficulty_for_alternative_chain env st alt_chain bei_height of
                 Fail f \<Rightarrow> Some (Fail f, st, bvc)
               | Ok current_diff \<Rightarrow>
                   if current_diff = 0 then Some (Ok False, st, bvc)
                   else if \<not> checkProofOfWork (currency env) b current_diff
                   then Some (Ok False, st, bvc\<lparr>m_verification_failed := True\<rparr>)
                   else if \<not> prevalidate_miner_transaction (currency env) b bei_height
                   then Some (Ok False, st, bvc\<lparr>m_verification_failed := True\<rparr>)
                   else
                     (case map_of (block_index (m_db st)) (ucast mainPrevHeight) of
                        None \<Rightarrow> Some (Ok False, st, bvc)
                      | Some h \<Rightarrow>
                          (case blocks (m_db st) h of
                             None \<Rightarrow> Some (Ok False, st, bvc)
                           | Some e \<Rightarrow>
                               let bei = \<lparr>bl = b, height = bei_height, block_cumulative_size = 0,
                                          cumulative_difficulty =
                                            (if alt_chain \<noteq> [] then cumulative_difficulty (snd (last alt_chain))
                                             else cumulative_difficulty e) + current_diff,
                                          already_generated_coins = 0, transactions = []\<rparr>
                               in
                               if m_alternative_chains st bid \<noteq> None then Some (Ok False, st, bvc)
                               else
                                 let st1 = st\<lparr>m_alternative_chains := (m_alternative_chains st)(bid \<mapsto> bei)\<rparr>;
                                     alt_chain1 = alt_chain @ [(bid, bei)]
                                 in
                                 (case alternative_block_decision (snd chk)
                                         (tip_be_of_handle_alternative_block env st1) bei of
                                    Keep_alternative \<Rightarrow>
                                      Some (Ok True,
                                            if sendNewAlternativeBlockMessage
                                            then st1\<lparr>m_messages := m_messages st1 @ [NewAlternativeBlockMessage bid]\<rparr>
                                            else st1,
                                            bvc)
                                  | d \<Rightarrow>
                                      (case switch st1 alt_chain1 (d = Reorganize_checkpoint) of
                                         None \<Rightarrow> None
                                       | Some (Fail f, st2) \<Rightarrow> Some (Fail f, st2, bvc)
                                       | Some (Ok False, st2) \<Rightarrow>
                                           Some (Ok False, st2, bvc\<lparr>m_verification_failed := True\<rparr>)
                                       | Some (Ok True, st2) \<Rightarrow>
                                           Some (Ok True, st2,
                                                 bvc\<lparr>m_added_to_main_chain := True,
                                                     m_switched_to_alt_chain := True\<rparr>)))))))"

text \<open>
  \<open>handle_alternative_block\<close>. \<open>Checkpoints::load_checkpoints_from_dns\<close>, which it
  calls first, reads the network; the checkpoints of the environment are those in
  force after it.
\<close>

definition handle_alternative_block ::
  "Env \<Rightarrow> (Blockchain \<Rightarrow> (Hash \<times> BlockEntry) list \<Rightarrow> bool \<Rightarrow> (bool outcome \<times> Blockchain) option) \<Rightarrow> bool
     \<Rightarrow> Blockchain \<Rightarrow> Block \<Rightarrow> Hash \<Rightarrow> block_verification_context
     \<Rightarrow> (bool outcome \<times> Blockchain \<times> block_verification_context) option" where
  "handle_alternative_block env switch sendNewAlternativeBlockMessage st b bid bvc =
     (let block_height = get_block_height (tools env) b in
      if block_height = 0 then Some (Ok False, st, bvc\<lparr>m_verification_failed := True\<rparr>)
      else if \<not> is_alternative_block_allowed (checkpoints env) (getCurrentBlockchainHeight st) block_height
      then Some (Ok False, st, bvc\<lparr>m_verification_failed := True\<rparr>)
      else if \<not> checkBlockVersion env b
      then Some (Ok False, st, bvc\<lparr>m_verification_failed := True\<rparr>)
      else if \<not> checkCumulativeBlockSize env (getBlockCumulativeSize env st b) (ucast block_height)
      then Some (Ok False, st, bvc\<lparr>m_verification_failed := True\<rparr>)
      else
        let mainPrev = blocks (m_db st) (previousBlockHash b);
            mainPrevHeight = (case mainPrev of None \<Rightarrow> 0 | Some e \<Rightarrow> height e);
            it_prev = m_alternative_chains st (previousBlockHash b)
        in
        if it_prev \<noteq> None \<or> mainPrev \<noteq> None then
          (case build_alt_chain (m_alternative_chains st) (previousBlockHash b) [] of
             None \<Rightarrow> None
           | Some alt_chain \<Rightarrow>
               handle_alternative_block_chain env switch sendNewAlternativeBlockMessage
                 st b bid bvc alt_chain mainPrevHeight)
        else Some (Ok True, st, bvc\<lparr>m_marked_as_orphaned := True\<rparr>))"

section \<open>Ingesting a block\<close>

text \<open>
  \<open>loadTransactions\<close> takes the transactions of the block from the pool; when one is
  missing, those already taken are given back, last first. \<open>taken\<close> holds the
  transactions taken so far.
\<close>

fun loadTransactions_from ::
  "Tools \<Rightarrow> Hash list \<Rightarrow> Transaction list \<Rightarrow> (Hash \<rightharpoonup> Transaction) \<Rightarrow> Transaction list option \<times> (Hash \<rightharpoonup> Transaction)" where
  "loadTransactions_from tls [] taken pool = (Some taken, pool)"
| "loadTransactions_from tls (h # hs) taken pool =
     (case pool h of
        None \<Rightarrow> (None, fold (\<lambda>t p. p(getObjectHash tls t \<mapsto> t)) (rev taken) pool)
      | Some t \<Rightarrow> loadTransactions_from tls hs (taken @ [t]) (pool(h := None)))"

definition loadTransactions :: "Tools \<Rightarrow> Block \<Rightarrow> Blockchain \<Rightarrow> Transaction list option \<times> Blockchain" where
  "loadTransactions tls b st =
     (case loadTransactions_from tls (transactionHashes b) [] (m_tx_pool st) of
        (r, pool) \<Rightarrow> (r, st\<lparr>m_tx_pool := pool\<rparr>))"

definition pushBlock ::
  "Env \<Rightarrow> Blockchain \<Rightarrow> Block \<Rightarrow> Hash \<Rightarrow> block_verification_context
     \<Rightarrow> bool outcome \<times> Blockchain \<times> block_verification_context" where
  "pushBlock env st blockData bid bvc =
     (case loadTransactions (tools env) blockData st of
        (None, st1) \<Rightarrow> (Ok False, st1, bvc\<lparr>m_verification_failed := True\<rparr>)
      | (Some txs, st1) \<Rightarrow>
          (case pushBlock_txs env st1 blockData txs bid bvc of
             (Ok False, st2, bvc2) \<Rightarrow> (Ok False, saveTransactions (tools env) txs st2, bvc2)
           | r \<Rightarrow> r))"

definition sendMessage :: "BlockchainMessage \<Rightarrow> Blockchain \<Rightarrow> Blockchain" where
  "sendMessage msg st = st\<lparr>m_messages := m_messages st @ [msg]\<rparr>"

text \<open>
  \<open>addNewBlock\<close>. The handler of a block that does not refer to the chain tail is the
  argument \<open>alt\<close>, which the source fills with \<open>handle_alternative_block\<close>
  (\<open>ingest\<close> below does). The model returns \<open>None\<close> when \<open>alt\<close> does not return. Before it calls the handler the
  source writes the block index of the first coinbase input to the log with
  \<open>boost::get<BaseInput>(bl.baseTransaction.inputs.front())\<close>, which is undefined on a
  coinbase without inputs and throws on an input of another type.
\<close>

definition addNewBlock ::
  "Env \<Rightarrow> (Blockchain \<Rightarrow> Block \<Rightarrow> Hash \<Rightarrow> block_verification_context
            \<Rightarrow> (bool outcome \<times> Blockchain \<times> block_verification_context) option)
     \<Rightarrow> Blockchain \<Rightarrow> Block \<Rightarrow> block_verification_context
     \<Rightarrow> (bool outcome \<times> Blockchain \<times> block_verification_context) option" where
  "addNewBlock env alt st b bvc =
     (case get_block_hash (tools env) b of
        None \<Rightarrow> Some (Ok False, st, bvc\<lparr>m_verification_failed := True\<rparr>)
      | Some bid \<Rightarrow>
          if haveBlock st bid then Some (Ok False, st, bvc\<lparr>m_already_exists := True\<rparr>)
          else
            (case (if \<not> (previousBlockHash b = getTailId st) then
                     (case inputs (baseTransaction b) of
                        [] \<Rightarrow> Some (Fail Undefined, st, bvc)
                      | BaseInput bi # rest \<Rightarrow> alt st b bid (bvc\<lparr>m_added_to_main_chain := False\<rparr>)
                      | other # rest \<Rightarrow> Some (Fail Exception, st, bvc))
                   else
                     (case pushBlock env st b bid bvc of
                        (Ok True, st1, bvc1) \<Rightarrow> Some (Ok True, sendMessage (NewBlockMessage bid) st1, bvc1)
                      | r \<Rightarrow> Some r)) of
               None \<Rightarrow> None
             | Some (Ok True, st1, bvc1) \<Rightarrow>
                 if m_added_to_main_chain bvc1
                 then Some (Ok True, st1\<lparr>m_observer_notifications := Suc (m_observer_notifications st1)\<rparr>, bvc1)
                 else Some (Ok True, st1, bvc1)
             | Some r \<Rightarrow> Some r))"

text \<open>
  The entry point of the engine: \<open>addNewBlock\<close> with \<open>handle_alternative_block\<close> as
  its handler of alternative blocks (the default of the handler's last parameter is
  to send the message of a new alternative block).
\<close>

definition ingest ::
  "Env \<Rightarrow> (Blockchain \<Rightarrow> (Hash \<times> BlockEntry) list \<Rightarrow> bool \<Rightarrow> (bool outcome \<times> Blockchain) option)
     \<Rightarrow> Blockchain \<Rightarrow> Block \<Rightarrow> block_verification_context
     \<Rightarrow> (bool outcome \<times> Blockchain \<times> block_verification_context) option" where
  "ingest env switch st b bvc = addNewBlock env (handle_alternative_block env switch True) st b bvc"

text \<open>
  The height \<open>pushBlock\<close> gives a block: one more than the greatest key of the
  height index, 0 on an empty index.
\<close>

definition next_block_height :: "Blockchain \<Rightarrow> u32" where
  "next_block_height st =
     (case cursor_rbegin (block_index (m_db st)) of None \<Rightarrow> 0 | Some (tip, v) \<Rightarrow> ucast tip + 1)"

text \<open>The height index and the block records of a store.\<close>

definition chain_part :: "DB \<Rightarrow> (u64 \<times> Hash) list \<times> (Hash \<rightharpoonup> BlockEntry)" where
  "chain_part db = (block_index db, blocks db)"

section \<open>Switching to an alternative chain\<close>

text \<open>
  The constants of \<open>CryptoNote::parameters\<close> that \<open>switch_to_alternative_blockchain\<close>
  reads, and \<open>calc_poisson_ln\<close>, are not among the sources; they are parameters.
  \<open>poisson_rejects delta n\<close> stands for
  \<^verbatim>\<open>calc_poisson_ln(double(delta) / double(DIFFICULTY_TARGET), n) < POISSON_LOG_P_REJECT\<close>,
  which is computed in floating point.
\<close>

record Parameters =
  POISSON_CHECK_TRIGGER :: u64
  POISSON_CHECK_DEPTH :: u64
  CRYPTONOTE_BLOCK_FUTURE_TIME_LIMIT_V1 :: u64
  poisson_rejects :: "u64 \<Rightarrow> u64 \<Rightarrow> bool"

text \<open>
  The overload of \<open>get_block_hash\<close> that returns the hash (CryptoNoteFormatUtils, not
  among the sources) gives the hash that the other overload computes; \<open>NULL_HASH\<close>
  stands for its value on a block on which the other overload fails.
  \<open>value_initialized_bvc\<close> is
  \<open>boost::value_initialized<block_verification_context>()\<close>.
\<close>

definition block_hash :: "Tools \<Rightarrow> Block \<Rightarrow> Hash" where
  "block_hash tls b = (case get_block_hash tls b of Some h \<Rightarrow> h | None \<Rightarrow> NULL_HASH)"

definition value_initialized_bvc :: block_verification_context where
  "value_initialized_bvc =
     \<lparr>m_added_to_main_chain = False, m_verification_failed = False,
      m_marked_as_orphaned = False, m_already_exists = False, m_switched_to_alt_chain = False\<rparr>"

definition getBlockByHash :: "Blockchain \<Rightarrow> Hash \<Rightarrow> Block option" where
  "getBlockByHash st blockHash =
     (case blocks (m_db st) blockHash of
        Some pb \<Rightarrow> Some (bl pb)
      | None \<Rightarrow>
          (case m_alternative_chains st blockHash of
             Some e \<Rightarrow> Some (bl e)
           | None \<Rightarrow> None))"

text \<open>
  The Poisson check. The loop runs \<open>i\<close> from 1 to \<open>POISSON_CHECK_DEPTH\<close> (taken to be
  less than \<open>2^64 - 1\<close>, so that \<open>i\<close> does not wrap) and walks from the parent of the
  alternative chain back along \<open>previousBlockHash\<close>; \<open>Block blk;\<close> is left as declared
  when \<open>getBlockByHash\<close> does not find the block (the model takes the block of
  \<open>uninitialized_entry\<close> for it), and the result of \<open>getBlockByHash\<close> is not looked
  at. \<open>poisson_loop\<close> returns \<open>failed_checks\<close> and the value of \<open>i\<close> when
  the loop is left.
\<close>

fun poisson_loop ::
  "Env \<Rightarrow> Parameters \<Rightarrow> Blockchain \<Rightarrow> u64 \<Rightarrow> u64 \<Rightarrow> u64 list \<Rightarrow> Hash \<Rightarrow> u64 \<Rightarrow> u64 \<times> u64" where
  "poisson_loop env par st high_timestamp alt_chain_size [] low_block failed_checks =
     (failed_checks, POISSON_CHECK_DEPTH par + 1)"
| "poisson_loop env par st high_timestamp alt_chain_size (i # rest) low_block failed_checks =
     (if low_block = NULL_HASH then (failed_checks, i)
      else
        let blk = (case getBlockByHash st low_block of
                     Some b \<Rightarrow> b | None \<Rightarrow> bl (uninitialized_entry env));
            low_timestamp = timestamp blk
        in
        if low_timestamp \<ge> high_timestamp
        then poisson_loop env par st high_timestamp alt_chain_size rest
               (previousBlockHash blk) (failed_checks + 1)
        else if poisson_rejects par (high_timestamp - low_timestamp) (alt_chain_size + i)
        then poisson_loop env par st high_timestamp alt_chain_size rest
               (previousBlockHash blk) (failed_checks + 1)
        else poisson_loop env par st high_timestamp alt_chain_size rest
               (previousBlockHash blk) failed_checks)"

text \<open>\<open>poisson_check\<close> tells whether the switch goes on after the check.\<close>

definition poisson_check :: "Env \<Rightarrow> Parameters \<Rightarrow> Blockchain \<Rightarrow> (Hash \<times> BlockEntry) list \<Rightarrow> bool" where
  "poisson_check env par st alt_chain =
     (let alt_chain_size = (of_nat (length alt_chain) :: u64);
          high_timestamp =
            fold (\<lambda>it high. if high < timestamp (bl (snd it)) then timestamp (bl (snd it)) else high)
              alt_chain (timestamp (bl (snd (last alt_chain))));
          low_block = previousBlockHash (bl (snd (hd alt_chain)))
      in
      if high_timestamp > get_adjusted_time env + CRYPTONOTE_BLOCK_FUTURE_TIME_LIMIT_V1 par then False
      else
        (case poisson_loop env par st high_timestamp alt_chain_size
                (map of_nat [1 ..< Suc (unat (POISSON_CHECK_DEPTH par))]) low_block 0 of
           (failed_checks, i) \<Rightarrow> \<not> failed_checks > (i - 1) div 2))"

text \<open>
  \<open>m_db.rbegin(BLOCK_INDEX_PREFIX, middle)\<close>: the entries of the height index from key
  \<open>middle\<close> downwards, in descending key order, as they are when the cursor is
  opened.
\<close>

definition cursor_rbegin_middle :: "(u64 \<times> Hash) list \<Rightarrow> u64 \<Rightarrow> (u64 \<times> Hash) list" where
  "cursor_rbegin_middle bi middle = rev (sort_key fst (filter (\<lambda>e. fst e \<le> middle) bi))"

text \<open>
  Disconnecting the old chain:
  \<^verbatim>\<open>
  size_t i = m_height - 1;
  for (DB::Cursor cur = m_db.rbegin(BLOCK_INDEX_PREFIX, middle); i >= split_height; i--, cur.next()) {
    ... Block b = e.bl; popBlock(); disconnected_chain.push_front(b); }
  \<close>
  \<open>i\<close> is a \<open>size_t\<close> (64 bits) and wraps around below 0, so with \<open>split_height = 0\<close> the
  condition never fails; the model returns \<open>None\<close> when the loop does not end. \<open>cur\<close>
  holds what is left of the cursor.
\<close>

partial_function (option) disconnect_old_chain ::
  "Env \<Rightarrow> u64 \<Rightarrow> u64 \<Rightarrow> (u64 \<times> Hash) list \<Rightarrow> Blockchain \<Rightarrow> Block list
     \<Rightarrow> (Block list outcome \<times> Blockchain) option" where
  "disconnect_old_chain env split_height i cur st disconnected_chain =
     (if \<not> split_height \<le> i then Some (Ok disconnected_chain, st)
      else
        (case popBlock env st of
           (Fail f, st') \<Rightarrow> Some (Fail f, st')
         | (Ok u, st') \<Rightarrow>
             disconnect_old_chain env split_height (i - 1) (tl cur) st'
               (bl (entry_at_cursor env (m_db st) cur 0) # disconnected_chain)))"

text \<open>
  \<open>rollback_blockchain_switching\<close>: the loop
  \<open>for (size_t i = m_height - 1; i >= rollback_height; i--) popBlock();\<close> and then the
  blocks of the original chain pushed again.
\<close>

partial_function (option) remove_failed_subchain ::
  "Env \<Rightarrow> u64 \<Rightarrow> u64 \<Rightarrow> Blockchain \<Rightarrow> (unit outcome \<times> Blockchain) option" where
  "remove_failed_subchain env rollback_height i st =
     (if \<not> rollback_height \<le> i then Some (Ok (), st)
      else
        (case popBlock env st of
           (Fail f, st') \<Rightarrow> Some (Fail f, st')
         | (Ok u, st') \<Rightarrow> remove_failed_subchain env rollback_height (i - 1) st'))"

fun return_original_chain :: "Env \<Rightarrow> Block list \<Rightarrow> Blockchain \<Rightarrow> bool outcome \<times> Blockchain" where
  "return_original_chain env [] st = (Ok True, st)"
| "return_original_chain env (b # rest) st =
     (case pushBlock env st b (block_hash (tools env) b) value_initialized_bvc of
        (Fail f, st', bvc) \<Rightarrow> (Fail f, st')
      | (Ok r, st', bvc) \<Rightarrow>
          if \<not> (r \<and> m_added_to_main_chain bvc) then (Ok False, st')
          else return_original_chain env rest st')"

definition rollback_blockchain_switching ::
  "Env \<Rightarrow> Block list \<Rightarrow> u64 \<Rightarrow> Blockchain \<Rightarrow> (bool outcome \<times> Blockchain) option" where
  "rollback_blockchain_switching env original_chain rollback_height st =
     (case remove_failed_subchain env rollback_height (ucast (m_height st - 1)) st of
        None \<Rightarrow> None
      | Some (Fail f, st') \<Rightarrow> Some (Fail f, st')
      | Some (Ok u, st') \<Rightarrow> Some (return_original_chain env original_chain st'))"

text \<open>
  Connecting the new chain: the blocks of the alternative chain are pushed in
  order. The result is the part of the chain from the first block that
  \<open>pushBlock\<close> did not add on, empty when all were added.
\<close>

fun connect_alt_chain ::
  "Env \<Rightarrow> (Hash \<times> BlockEntry) list \<Rightarrow> Blockchain \<Rightarrow> (Hash \<times> BlockEntry) list outcome \<times> Blockchain" where
  "connect_alt_chain env [] st = (Ok [], st)"
| "connect_alt_chain env (ch_ent # rest) st =
     (case pushBlock env st (bl (snd ch_ent)) (block_hash (tools env) (bl (snd ch_ent)))
             value_initialized_bvc of
        (Fail f, st', bvc) \<Rightarrow> (Fail f, st')
      | (Ok r, st', bvc) \<Rightarrow>
          if \<not> r \<or> \<not> m_added_to_main_chain bvc then (Ok (ch_ent # rest), st')
          else connect_alt_chain env rest st')"

text \<open>
  Pushing the old chain as alternative chain: \<open>handle_alternative_block\<close> is called
  for each disconnected block, without the message of a new alternative block,
  until one call returns false. \<open>hab\<close> is that call.
\<close>

fun push_old_chain ::
  "(Blockchain \<Rightarrow> Block \<Rightarrow> Hash \<Rightarrow> block_verification_context
      \<Rightarrow> (bool outcome \<times> Blockchain \<times> block_verification_context) option)
     \<Rightarrow> Tools \<Rightarrow> Block list \<Rightarrow> Blockchain \<Rightarrow> (unit outcome \<times> Blockchain) option" where
  "push_old_chain hab tls [] st = Some (Ok (), st)"
| "push_old_chain hab tls (old_ch_ent # rest) st =
     (case hab st old_ch_ent (block_hash tls old_ch_ent) value_initialized_bvc of
        None \<Rightarrow> None
      | Some (Fail f, st', bvc) \<Rightarrow> Some (Fail f, st')
      | Some (Ok r, st', bvc) \<Rightarrow>
          if \<not> r then Some (Ok (), st') else push_old_chain hab tls rest st')"

definition erase_alternative_chains :: "(Hash \<times> BlockEntry) list \<Rightarrow> Blockchain \<Rightarrow> Blockchain" where
  "erase_alternative_chains ch_ents st =
     st\<lparr>m_alternative_chains := fold (\<lambda>ch_ent m. m(fst ch_ent := None)) ch_ents (m_alternative_chains st)\<rparr>"

text \<open>
  \<open>switch_to_alternative_blockchain(alt_chain, discard_disconnected_chain)\<close>, with the
  call of \<open>handle_alternative_block\<close> for a disconnected block as the argument
  \<open>hab\<close>. The result of \<open>rollback_blockchain_switching\<close> is not looked at. The
  explorer's index of orphan blocks is left out.
\<close>

definition switch_to_alternative_blockchain_with ::
  "Env \<Rightarrow> Parameters
     \<Rightarrow> (Blockchain \<Rightarrow> Block \<Rightarrow> Hash \<Rightarrow> block_verification_context
          \<Rightarrow> (bool outcome \<times> Blockchain \<times> block_verification_context) option)
     \<Rightarrow> Blockchain \<Rightarrow> (Hash \<times> BlockEntry) list \<Rightarrow> bool \<Rightarrow> (bool outcome \<times> Blockchain) option" where
  "switch_to_alternative_blockchain_with env par hab st alt_chain discard_disconnected_chain =
     (if alt_chain = [] then Some (Ok False, st)
      else
        let split_height = (ucast (height (snd (hd alt_chain))) :: u64) in
        if \<not> ucast (m_height st) > split_height then Some (Ok False, st)
        else if length alt_chain \<ge> unat (POISSON_CHECK_TRIGGER par)
                \<and> \<not> poisson_check env par st alt_chain
        then Some (Ok False, st)
        else
          (case disconnect_old_chain env split_height (ucast (m_height st - 1))
                  (cursor_rbegin_middle (block_index (m_db st)) (ucast (m_height st - 1))) st [] of
             None \<Rightarrow> None
           | Some (Fail f, st1) \<Rightarrow> Some (Fail f, st1)
           | Some (Ok disconnected_chain, st1) \<Rightarrow>
               (case connect_alt_chain env alt_chain st1 of
                  (Fail f, st2) \<Rightarrow> Some (Fail f, st2)
                | (Ok (ch_ent # rest), st2) \<Rightarrow>
                    (case rollback_blockchain_switching env disconnected_chain split_height st2 of
                       None \<Rightarrow> None
                     | Some (Fail f, st3) \<Rightarrow> Some (Fail f, st3)
                     | Some (Ok r, st3) \<Rightarrow>
                         Some (Ok False, erase_alternative_chains (ch_ent # rest) st3))
                | (Ok [], st2) \<Rightarrow>
                    (case (if \<not> discard_disconnected_chain
                           then push_old_chain hab (tools env) disconnected_chain st2
                           else Some (Ok (), st2)) of
                       None \<Rightarrow> None
                     | Some (Fail f, st3) \<Rightarrow> Some (Fail f, st3)
                     | Some (Ok u, st3) \<Rightarrow>
                         Some (Ok True,
                               sendMessage
                                 (ChainSwitchMessage
                                    (previousBlockHash (bl (snd (hd alt_chain)))
                                     # map (\<lambda>ch_ent. block_hash (tools env) (bl (snd ch_ent))) alt_chain))
                                 (erase_alternative_chains alt_chain st3))))))"

text \<open>
  \<open>handle_alternative_block\<close> and \<open>switch_to_alternative_blockchain\<close> call each other.
  \<open>switch_to_alternative_blockchain env par n\<close> is the function when the calls are
  nested at most \<open>n\<close> deep: the model returns \<open>None\<close> at a call that would go deeper,
  as where the function does not return.
\<close>

primrec switch_to_alternative_blockchain ::
  "Env \<Rightarrow> Parameters \<Rightarrow> nat
     \<Rightarrow> Blockchain \<Rightarrow> (Hash \<times> BlockEntry) list \<Rightarrow> bool \<Rightarrow> (bool outcome \<times> Blockchain) option" where
  "switch_to_alternative_blockchain env par 0 = (\<lambda>st alt_chain discard. None)"
| "switch_to_alternative_blockchain env par (Suc n) =
     switch_to_alternative_blockchain_with env par
       (handle_alternative_block env (switch_to_alternative_blockchain env par n) False)"

section \<open>A small chain to run the model on\<close>

text \<open>
  Concrete collaborators and blocks, on which the theorems below are instantiated
  and the model is evaluated. The check window has 3 blocks, a block may be 100
  seconds ahead of the clock, the reward is 50 plus fees, every block has
  difficulty 1, every proof of work and every signature passes. A block's hash is
  its nonce, a transaction's hash is its unlock time plus 4096.
\<close>

definition example_currency :: Currency where
  "example_currency =
     \<lparr>timestampCheckWindow = (\<lambda>v. 3), blockFutureTimeLimit = (\<lambda>v. 100),
      minedMoneyUnlockWindow = 10, minedMoneyUnlockWindow_v1 = 20, rewardBlocksWindow = 5,
      upgradeHeight = (\<lambda>v. 1000000),
      getBlockReward = (\<lambda>ver median sz gen fee. if sz > 10000 then None else Some (50 + fee, 50)),
      maxBlockCumulativeSize = (\<lambda>h. 100000),
      blockGrantedFullRewardZoneByBlockVersion = (\<lambda>v. 10000),
      difficultyBlocksCountByBlockVersion = (\<lambda>v. 4),
      nextDifficulty = (\<lambda>h v ts cds. 1),
      checkProofOfWork = (\<lambda>b d. True)\<rparr>"

definition example_tools :: Tools where
  "example_tools =
     \<lparr>get_block_hash = (\<lambda>b. Some (ucast (nonce b))),
      get_block_height = (\<lambda>b. case inputs (baseTransaction b) of [BaseInput i] \<Rightarrow> i | _ \<Rightarrow> 0),
      getObjectHash = (\<lambda>t. ucast (unlockTime t) + 4096),
      getObjectBinarySize = (\<lambda>t. 100),
      getMergeMiningTagFromExtra = (\<lambda>e. False),
      getPaymentId = (\<lambda>t. None),
      checkMultisignatureInputsDiff = (\<lambda>t. True),
      getInputAmount = (\<lambda>t. 0),
      getOutputAmount = (\<lambda>t. 0)\<rparr>"

text \<open>No checkpoints at all, and a checkpoint zone that reaches up to height 100.\<close>

definition no_checkpoints :: Checkpoints where
  "no_checkpoints =
     \<lparr>is_in_checkpoint_zone = (\<lambda>h. False), check_block = (\<lambda>h i. (True, False)),
      is_alternative_block_allowed = (\<lambda>a b. True)\<rparr>"

definition zone_checkpoints :: Checkpoints where
  "zone_checkpoints =
     \<lparr>is_in_checkpoint_zone = (\<lambda>h. h \<le> 100), check_block = (\<lambda>h i. (True, False)),
      is_alternative_block_allowed = (\<lambda>a b. True)\<rparr>"

definition coinbase :: "u32 \<Rightarrow> u64 \<Rightarrow> Transaction" where
  "coinbase h amt =
     \<lparr>version = 1, unlockTime = ucast h + 10, inputs = [BaseInput h],
      outputs = [\<lparr>amount = amt, target = KeyOutput 7\<rparr>], extra = [], signatures = []\<rparr>"

definition example_block :: "u32 \<Rightarrow> u32 \<Rightarrow> Hash \<Rightarrow> u64 \<Rightarrow> Hash list \<Rightarrow> Block" where
  "example_block h n prev ts hashes =
     \<lparr>majorVersion = 1, minorVersion = 0, nonce = n, timestamp = ts,
      previousBlockHash = prev, baseTransaction = coinbase h 50, transactionHashes = hashes,
      algorithm = 0\<rparr>"

text \<open>A transaction that spends an output of amount 50 with key image \<open>k\<close>.\<close>

definition spend_tx :: "KeyImage \<Rightarrow> u64 \<Rightarrow> Transaction" where
  "spend_tx k ut =
     \<lparr>version = 1, unlockTime = ut, inputs = [KeyInput 50 [0] k],
      outputs = [\<lparr>amount = 40, target = KeyOutput 8\<rparr>], extra = [], signatures = [[0]]\<rparr>"

definition zero_entry :: BlockEntry where
  "zero_entry =
     \<lparr>bl = example_block 0 0 0 0 [], height = 0, block_cumulative_size = 0,
      cumulative_difficulty = 0, already_generated_coins = 0, transactions = []\<rparr>"

definition example_env :: "Checkpoints \<Rightarrow> Env" where
  "example_env cp =
     \<lparr>currency = example_currency, checkpoints = cp, tools = example_tools,
      get_adjusted_time = 5000, uninitialized_entry = zero_entry,
      check_tx_input = (\<lambda>st t i. True), validateInput = (\<lambda>st t i. True),
      getBlockCumulativeSize = (\<lambda>st b. 100)\<rparr>"

definition empty_db :: DB where
  "empty_db =
     \<lparr>block_index = [], blocks = Map.empty, transactions_index = Map.empty,
      spent_key_images = Map.empty, outputs_index = Map.empty,
      multisignature_outputs = Map.empty, payment_id_index = Map.empty,
      timestamp_index = Map.empty, generated_transactions_index = Map.empty\<rparr>"

definition empty_chain :: Blockchain where
  "empty_chain =
     \<lparr>m_db = empty_db, m_height = 0, m_lastGeneratedTxNumber = 0,
      m_alternative_chains = Map.empty, m_current_block_cumul_sz_limit = 0,
      m_synchronized = True, m_tx_pool = Map.empty, m_messages = [],
      m_observer_notifications = 0\<rparr>"

definition bvc0 :: block_verification_context where
  "bvc0 = \<lparr>m_added_to_main_chain = False, m_verification_failed = False,
      m_marked_as_orphaned = False, m_already_exists = False, m_switched_to_alt_chain = False\<rparr>"

text \<open>
  The genesis block (hash 1), a block of height 1 without transactions (hash 2), a
  block of height 1 with a transaction that spends key image 9 (hash 3) and a block
  of height 2 with another transaction that spends key image 9 (hash 4).
\<close>

definition genesis :: Block where "genesis = example_block 0 1 0 1000 []"
definition block_a :: Block where "block_a = example_block 1 2 1 1001 []"
definition block_b :: Block where "block_b = example_block 1 3 1 1001 [4196]"
definition block_c :: Block where "block_c = example_block 2 4 3 1002 [4197]"

text \<open>The chains that \<open>pushBlock\<close> builds from these blocks under checkpoints \<open>cp\<close>.\<close>

definition chain_g :: "Checkpoints \<Rightarrow> Blockchain" where
  "chain_g cp = fst (snd (pushBlock_txs (example_env cp) empty_chain genesis [] 1 bvc0))"

definition chain_ga :: "Checkpoints \<Rightarrow> Blockchain" where
  "chain_ga cp = fst (snd (pushBlock_txs (example_env cp) (chain_g cp) block_a [] 2 bvc0))"

definition chain_gb :: "Checkpoints \<Rightarrow> Blockchain" where
  "chain_gb cp = fst (snd (pushBlock_txs (example_env cp) (chain_g cp) block_b [spend_tx 9 100] 3 bvc0))"

text \<open>
  A block of height 1 whose coinbase has a wrong unlock time and two inputs, none
  of them a \<open>BaseInput\<close> (hash 5); an alternative block of height 1 on the genesis
  block (hash 6).
\<close>

definition block_bad :: Block where
  "block_bad = (example_block 1 5 1 1001 [])\<lparr>baseTransaction :=
     \<lparr>version = 1, unlockTime = 7777, inputs = [KeyInput 50 [0] 12, KeyInput 50 [0] 13],
      outputs = [\<lparr>amount = 1000000, target = KeyOutput 7\<rparr>], extra = [], signatures = []\<rparr>\<rparr>"

definition block_alt :: Block where "block_alt = example_block 1 6 1 1001 []"

text \<open>
  A block of height 2 on that alternative block (hash 7). The environment without
  checkpoints in which an entry that was declared and never assigned is \<open>e\<close>. The
  chain of the genesis block and the block of hash 2 with the block of hash 6 in
  the map of alternative blocks, as \<open>handle_alternative_block\<close> enters it there. The
  Poisson check applies to alternative chains of 10 blocks or more.
\<close>

definition block_alt2 :: Block where "block_alt2 = example_block 2 7 6 1002 []"

definition env_with :: "BlockEntry \<Rightarrow> Env" where
  "env_with e = (example_env no_checkpoints)\<lparr>uninitialized_entry := e\<rparr>"

definition chain_ga_alt :: Blockchain where
  "chain_ga_alt =
     (chain_ga no_checkpoints)\<lparr>
        m_alternative_chains :=
          [6 \<mapsto> \<lparr>bl = block_alt, height = 1, block_cumulative_size = 0, cumulative_difficulty = 2,
                 already_generated_coins = 0, transactions = []\<rparr>],
        m_messages := [NewAlternativeBlockMessage 6]\<rparr>"

definition example_parameters :: Parameters where
  "example_parameters =
     \<lparr>POISSON_CHECK_TRIGGER = 10, POISSON_CHECK_DEPTH = 60,
      CRYPTONOTE_BLOCK_FUTURE_TIME_LIMIT_V1 = 100, poisson_rejects = (\<lambda>delta n. False)\<rparr>"

text \<open>
  A transaction that spends key image 11 twice, and the block of height 1 that
  holds it (hash 8).
\<close>

definition twice_tx :: Transaction where
  "twice_tx =
     \<lparr>version = 1, unlockTime = 200, inputs = [KeyInput 50 [0] 11, KeyInput 50 [0] 11],
      outputs = [\<lparr>amount = 40, target = KeyOutput 8\<rparr>], extra = [], signatures = [[0], [0]]\<rparr>"

definition block_twice :: Block where "block_twice = example_block 1 8 1 1001 [4296]"

lemmas example_defs = example_currency_def example_tools_def no_checkpoints_def zone_checkpoints_def
  coinbase_def example_block_def spend_tx_def zero_entry_def example_env_def empty_db_def
  empty_chain_def bvc0_def genesis_def block_a_def block_b_def block_c_def block_bad_def
  block_alt_def block_alt2_def env_with_def chain_ga_alt_def example_parameters_def
  twice_tx_def block_twice_def

lemmas model_defs = pushBlock_txs_def pushBlock_prechecks_def pushBlock_index_def pushBlock_entry_def
  pushTransaction_def checkBlockVersion_def getBlockMajorVersionForHeight_def getTailId_def
  cursor_rbegin_def cursor_begin_def getCurrentBlockchainHeight_def check_block_timestamp_main_def
  main_chain_timestamps_def check_block_timestamp_def getDifficultyForNextBlock_def
  prevalidate_miner_transaction_def check_outs_overflow_def map_put_def map_del_def bi_put_def bi_del_def
  checkCumulativeBlockSize_def validate_miner_transaction_def get_last_n_blocks_sizes_def
  getBackwardBlocksSize_def medianValue_def minerReward_def update_next_cumulative_size_limit_def
  push_output_step_def resize_def push_payment_id_def entry_at_cursor_def use_multisignature_step_def
  unspend_step_def pop_output_step_def pop_input_step_def popTransaction_def popTransactions_def
  removeLastBlock_def popBlock_def saveTransactions_def checkTransactionInputs_def
  have_tx_keyimg_as_spent_def checkIfSpent_def isInCheckpointZone_def haveBlock_def
  loadTransactions_def pushBlock_def sendMessage_def addNewBlock_def ingest_def
  handle_alternative_block_def handle_alternative_block_chain_def alternative_block_decision_def
  tip_be_of_handle_alternative_block_def get_next_difficulty_for_alternative_chain_def
  complete_timestamps_vector_def build_alt_chain.simps next_block_height_def
  BLOCK_MAJOR_VERSION_1_def BLOCK_MAJOR_VERSION_2_def BLOCK_MAJOR_VERSION_3_def
  BLOCK_MAJOR_VERSION_4_def BLOCK_MAJOR_VERSION_5_def NULL_HASH_def
  block_hash_def value_initialized_bvc_def getBlockByHash_def poisson_check_def
  cursor_rbegin_middle_def disconnect_old_chain.simps remove_failed_subchain.simps
  rollback_blockchain_switching_def erase_alternative_chains_def
  switch_to_alternative_blockchain_with_def

section \<open>Properties of medianValue\<close>

lemma sorted_perm_eq_sort:
  fixes s :: "u64 list"
  assumes "sorted s" "mset s = mset v"
  shows "s = sort v"
  using assms by (metis properties_for_sort)

text \<open>
  C10. \<open>medianValue\<close> returns the default value 0 for an empty vector, the single
  element for a one-element vector, the middle element of the sorted vector when the
  length is odd, and \<open>(s[n-1] + s[n]) / 2\<close> of the two middle sorted elements when the
  length is even, where \<open>s\<close> is the vector sorted in ascending order and \<open>n\<close> is half
  the length. The sum is the 64-bit sum of the element type; whenever it does not
  exceed the 64-bit range the result is the truncating average of the two numbers.
\<close>

theorem medianValue_spec:
  "medianValue [] = 0 \<and> medianValue [x] = x \<and>
   (sorted s \<and> mset s = mset v \<and> odd (length v) \<longrightarrow>
      medianValue v = s ! (length v div 2)) \<and>
   (sorted s \<and> mset s = mset v \<and> even (length v) \<and> v \<noteq> [] \<longrightarrow>
      medianValue v = (s ! (length v div 2 - 1) + s ! (length v div 2)) div 2 \<and>
      (unat (s ! (length v div 2 - 1)) + unat (s ! (length v div 2)) < 2 ^ 64 \<longrightarrow>
         unat (medianValue v) =
           (unat (s ! (length v div 2 - 1)) + unat (s ! (length v div 2))) div 2))"
proof -
  have e: "medianValue [] = 0" by (simp add: medianValue_def)
  have o: "medianValue [x] = x" by (simp add: medianValue_def)
  have odd_case: "medianValue v = s ! (length v div 2)"
    if "sorted s" "mset s = mset v" "odd (length v)"
  proof -
    have s: "s = sort v" using that(1,2) by (rule sorted_perm_eq_sort)
    have ne: "v \<noteq> []" using that(3) by auto
    show ?thesis
    proof (cases "length v = 1")
      case True
      then obtain a where "v = [a]" by (cases v) auto
      then show ?thesis using s by (simp add: medianValue_def)
    next
      case False
      then show ?thesis using ne that(3) s
        by (simp add: medianValue_def Let_def odd_iff_mod_2_eq_one)
    qed
  qed
  have even_case: "medianValue v = (s ! (length v div 2 - 1) + s ! (length v div 2)) div 2"
    if "sorted s" "mset s = mset v" "even (length v)" "v \<noteq> []"
  proof -
    have s: "s = sort v" using that(1,2) by (rule sorted_perm_eq_sort)
    have "length v \<noteq> 1" using that(3) by auto
    then show ?thesis using that(3,4) s
      by (simp add: medianValue_def Let_def even_iff_mod_2_eq_zero)
  qed
  have avg: "unat (medianValue v) =
      (unat (s ! (length v div 2 - 1)) + unat (s ! (length v div 2))) div 2"
    if "sorted s" "mset s = mset v" "even (length v)" "v \<noteq> []"
      "unat (s ! (length v div 2 - 1)) + unat (s ! (length v div 2)) < 2 ^ 64"
  proof -
    let ?a = "s ! (length v div 2 - 1)" and ?b = "s ! (length v div 2)"
    have "unat (?a + ?b) = unat ?a + unat ?b"
      using that(5) by (simp add: unat_add_lem [THEN iffD1])
    then have "unat ((?a + ?b) div 2) = (unat ?a + unat ?b) div 2"
      by (simp add: unat_div)
    then show ?thesis using even_case [OF that(1-4)] by simp
  qed
  show ?thesis using e o odd_case even_case avg by blast
qed

theorem medianValue_spec_witness:
  "medianValue [5, 1, 3] = 3 \<and> medianValue [4, 1, 3, 2] = 2 \<and>
   unat (medianValue [4, 1, 3, 2]) = 2 \<and>
   medianValue [2 ^ 63, 2 ^ 63] = 0"
proof -
  have a: "medianValue [5, 1, 3] = 3"
    using medianValue_spec [of 0 "[1, 3, 5]" "[5, 1, 3]"] by simp
  have b: "medianValue [4, 1, 3, 2] = 2 \<and> unat (medianValue [4, 1, 3, 2]) = 2"
    using medianValue_spec [of 0 "[1, 2, 3, 4]" "[4, 1, 3, 2]"] by simp
  have c: "medianValue [2 ^ 63, 2 ^ 63] = 0"
    using medianValue_spec [of 0 "[2 ^ 63, 2 ^ 63]" "[2 ^ 63, 2 ^ 63]"] by simp
  show ?thesis using a b c by simp
qed

section \<open>The timestamp rule\<close>

lemma unat_ucast_height: "unat (ucast (h :: u32) :: u64) = unat h"
proof -
  have "unat h < 2 ^ 32" using unsigned_less [of h, where 'a = nat] by simp
  then have "unat h < 2 ^ 64" by simp
  then show ?thesis by (simp add: unsigned_ucast_eq take_bit_nat_eq_self_iff)
qed

lemma main_chain_timestamps_length:
  assumes "main_chain_timestamps env st ver = Ok ts"
  shows "length ts = min (unat (m_height st)) (unat (timestampCheckWindow (currency env) ver))"
proof -
  let ?h = "ucast (m_height st) :: u64"
  let ?w = "timestampCheckWindow (currency env) ver"
  have n: "unat (?h - (if ?h \<le> ?w then 0 else ?h - ?w)) = min (unat ?h) (unat ?w)"
  proof (cases "?h \<le> ?w")
    case True
    then show ?thesis by (simp add: word_le_nat_alt)
  next
    case False
    then have "unat ?w < unat ?h" by (simp add: word_le_nat_alt)
    then show ?thesis using False by simp
  qed
  from assms have "length ts = unat (?h - (if ?h \<le> ?w then 0 else ?h - ?w))"
    by (auto simp: main_chain_timestamps_def Let_def split: if_splits)
  then show ?thesis using n by (simp add: unat_ucast_height)
qed

lemma check_block_timestamp_iff:
  "check_block_timestamp cur ts b \<longleftrightarrow>
     length ts < unat (timestampCheckWindow cur (majorVersion b)) \<or> medianValue ts \<le> timestamp b"
  by (auto simp: check_block_timestamp_def)

text \<open>
  Claim C6, as the code has it. On the main chain (\<open>check_block_timestamp_main\<close>) a
  block whose timestamp is greater than the clock plus \<open>blockFutureTimeLimit\<close> of its
  version is rejected whatever the number of blocks before it. Otherwise the
  timestamps collected are those of the last \<open>min (m_height, timestampCheckWindow)\<close>
  blocks, and the block passes if they are fewer than \<open>timestampCheckWindow\<close> or if
  its timestamp is not less than their median. \<open>check_block_timestamp\<close> itself, which
  is all that an alternative block goes through, has the window and the median rule
  only. With a full window a timestamp equal to the median passes, and a timestamp
  one second less than a (non-zero) median is rejected.
\<close>

theorem check_block_timestamp_rule:
  "(timestamp b > get_adjusted_time env + blockFutureTimeLimit (currency env) (majorVersion b) \<longrightarrow>
      check_block_timestamp_main env st b = Ok False) \<and>
   (\<not> timestamp b > get_adjusted_time env + blockFutureTimeLimit (currency env) (majorVersion b) \<and>
    main_chain_timestamps env st (majorVersion b) = Ok ts \<longrightarrow>
      length ts = min (unat (m_height st)) (unat (timestampCheckWindow (currency env) (majorVersion b))) \<and>
      check_block_timestamp_main env st b =
        Ok (length ts < unat (timestampCheckWindow (currency env) (majorVersion b))
            \<or> medianValue ts \<le> timestamp b)) \<and>
   (check_block_timestamp (currency env) tv b \<longleftrightarrow>
      length tv < unat (timestampCheckWindow (currency env) (majorVersion b))
      \<or> medianValue tv \<le> timestamp b) \<and>
   (unat (timestampCheckWindow (currency env) (majorVersion b)) \<le> length tv \<and>
    timestamp b = medianValue tv \<longrightarrow> check_block_timestamp (currency env) tv b) \<and>
   (unat (timestampCheckWindow (currency env) (majorVersion b)) \<le> length tv \<and>
    timestamp b + 1 = medianValue tv \<and> medianValue tv \<noteq> 0 \<longrightarrow>
      \<not> check_block_timestamp (currency env) tv b)"
proof -
  have a: "check_block_timestamp_main env st b = Ok False"
    if "timestamp b > get_adjusted_time env + blockFutureTimeLimit (currency env) (majorVersion b)"
    using that by (simp add: check_block_timestamp_main_def)
  have b: "check_block_timestamp_main env st b =
        Ok (length ts < unat (timestampCheckWindow (currency env) (majorVersion b))
            \<or> medianValue ts \<le> timestamp b)"
    if "\<not> timestamp b > get_adjusted_time env + blockFutureTimeLimit (currency env) (majorVersion b)"
       "main_chain_timestamps env st (majorVersion b) = Ok ts"
    using that by (simp add: check_block_timestamp_main_def check_block_timestamp_iff)
  have c: "\<not> check_block_timestamp (currency env) tv b"
    if "unat (timestampCheckWindow (currency env) (majorVersion b)) \<le> length tv"
       "timestamp b + 1 = medianValue tv" "medianValue tv \<noteq> 0"
  proof -
    have "timestamp b + 1 \<noteq> 0" using that(2,3) by simp
    then have "timestamp b < timestamp b + 1"
      by (metis add_neg_numeral_special(8) inc_less_eq_self_iff_eq not_le)
    then show ?thesis using that(1,2) by (simp add: check_block_timestamp_iff not_le)
  qed
  show ?thesis
    using a b c main_chain_timestamps_length [of env st "majorVersion b" ts]
    by (auto simp: check_block_timestamp_iff)
qed

text \<open>
  The rule at work: a block far ahead of the clock on the empty chain, a block on
  the empty chain within the limit, and three timestamps with median 1001.
\<close>

theorem check_block_timestamp_rule_witness:
  "check_block_timestamp_main (example_env no_checkpoints) empty_chain
     (example_block 0 1 0 99999 []) = Ok False \<and>
   check_block_timestamp_main (example_env no_checkpoints) empty_chain
     (example_block 0 1 0 1000 []) = Ok True \<and>
   check_block_timestamp example_currency [1000, 1002, 1001] (example_block 3 4 3 1001 []) \<and>
   \<not> check_block_timestamp example_currency [1000, 1002, 1001] (example_block 3 4 3 1000 [])"
proof -
  let ?env = "example_env no_checkpoints"
  have cur: "currency ?env = example_currency" by (simp add: example_env_def)
  have m: "medianValue [1000, 1002, 1001] = 1001" by (simp add: medianValue_def)
  have e: "main_chain_timestamps ?env empty_chain 1 = Ok []"
    by (simp add: example_defs model_defs Let_def)
  have a: "check_block_timestamp_main ?env empty_chain (example_block 0 1 0 99999 []) = Ok False"
    using check_block_timestamp_rule [where b = "example_block 0 1 0 99999 []" and env = ?env
        and st = empty_chain and ts = "[]" and tv = "[]"]
    by (simp add: example_defs)
  have b: "check_block_timestamp_main ?env empty_chain (example_block 0 1 0 1000 []) = Ok True"
    using check_block_timestamp_rule [where b = "example_block 0 1 0 1000 []" and env = ?env
        and st = empty_chain and ts = "[]" and tv = "[]"] e
    by (simp add: example_defs)
  have c: "check_block_timestamp example_currency [1000, 1002, 1001] (example_block 3 4 3 1001 [])"
    using check_block_timestamp_rule [where b = "example_block 3 4 3 1001 []" and env = ?env
        and st = empty_chain and ts = "[]" and tv = "[1000, 1002, 1001]"] m
    by (simp add: example_defs)
  have d: "\<not> check_block_timestamp example_currency [1000, 1002, 1001] (example_block 3 4 3 1000 [])"
    using check_block_timestamp_rule [where b = "example_block 3 4 3 1000 []" and env = ?env
        and st = empty_chain and ts = "[]" and tv = "[1000, 1002, 1001]"] m
    by (simp add: example_defs)
  show ?thesis using a b c d by simp
qed

text \<open>
  Claim C6 as stated fails: with no block on the chain, fewer than the 3 of the
  window, the check of the main chain rejects a block that is ahead of the clock
  by more than the limit.
\<close>

theorem check_block_timestamp_counterexample:
  "unat (m_height empty_chain) < unat (timestampCheckWindow example_currency 1) \<and>
   check_block_timestamp_main (example_env no_checkpoints) empty_chain
     (example_block 0 1 0 99999 []) = Ok False"
  by (simp add: example_defs model_defs Let_def)

section \<open>The coinbase transaction\<close>

lemma fold_add_amount:
  "unat (fold (\<lambda>out acc. acc + amount out) outs (a :: u64)) =
     (unat a + sum_list (map (\<lambda>out. unat (amount out)) outs)) mod 2 ^ 64"
proof (induction outs arbitrary: a)
  case Nil
  show ?case using unsigned_less [of a, where 'a = nat] by simp
next
  case (Cons x xs)
  show ?case
    by (simp add: Cons.IH unat_word_ariths mod_add_left_eq add.assoc)
qed

lemma minerReward_exact:
  "check_outs_overflow (baseTransaction b) \<Longrightarrow>
   unat (minerReward b) = sum_list (map (\<lambda>out. unat (amount out)) (outputs (baseTransaction b)))"
  by (simp add: minerReward_def check_outs_overflow_def fold_add_amount)

lemma prevalidate_miner_transaction_iff:
  "prevalidate_miner_transaction cur b h \<longleftrightarrow>
     inputs (baseTransaction b) = [BaseInput h] \<and>
     signatures (baseTransaction b) = [] \<and>
     unlockTime (baseTransaction b) =
       ucast h + (if majorVersion b < 5 then minedMoneyUnlockWindow cur
                  else minedMoneyUnlockWindow_v1 cur) \<and>
     check_outs_overflow (baseTransaction b)"
proof (cases "inputs (baseTransaction b)")
  case Nil
  then show ?thesis by (simp add: prevalidate_miner_transaction_def)
next
  case (Cons i rest)
  show ?thesis
  proof (cases rest)
    case Nil
    then show ?thesis using Cons
      by (cases i) (auto simp: prevalidate_miner_transaction_def BLOCK_MAJOR_VERSION_5_def)
  next
    case (Cons j rest')
    then show ?thesis using \<open>inputs (baseTransaction b) = i # rest\<close>
      by (simp add: prevalidate_miner_transaction_def)
  qed
qed

lemma pushBlock_txs_prevalidated:
  "fst (pushBlock_txs env st b txs bid bvc) = Ok True \<Longrightarrow>
   \<not> is_in_checkpoint_zone (checkpoints env) (m_height st) \<Longrightarrow>
   prevalidate_miner_transaction (currency env) b (m_height st)"
  by (auto simp: pushBlock_txs_def pushBlock_prechecks_def getCurrentBlockchainHeight_def Let_def
      split: precheck.splits if_splits outcome.splits bool.splits)

lemma handle_alternative_block_chain_prevalidated:
  assumes "handle_alternative_block_chain env switch sendmsg st b bid bvc alt_chain mph
             = Some (Ok True, st', bvc')"
  shows "prevalidate_miner_transaction (currency env) b
           (if alt_chain \<noteq> [] then height (snd (last alt_chain)) + 1 else mph + 1)"
proof (rule ccontr)
  assume n: "\<not> prevalidate_miner_transaction (currency env) b
           (if alt_chain \<noteq> [] then height (snd (last alt_chain)) + 1 else mph + 1)"
  have "handle_alternative_block_chain env switch sendmsg st b bid bvc alt_chain mph
          \<noteq> Some (Ok True, st', bvc')"
    unfolding handle_alternative_block_chain_def Let_def
    apply (simp only: n not_False_eq_True if_True)
    apply (simp split: option.split outcome.split split del: if_split cong: if_weak_cong)
    apply (simp split: if_split)
    done
  then show False using assms by simp
qed

text \<open>
  Claim C8, as the code has it. \<open>prevalidate_miner_transaction\<close> accepts the coinbase
  of a block for a height exactly when it has one input, a \<open>BaseInput\<close> whose block
  index is that height, no signatures, the unlock time height plus the unlock
  window of the block's version (one window below version 5, another from version
  5 on) and outputs that pass the overflow check. A block that \<open>pushBlock\<close> accepts
  outside the checkpoint zone has passed it for the cached height of the chain,
  and so has every block accepted as an alternative, for the height after its
  parent. Inside the checkpoint zone \<open>pushBlock\<close> does not call it.
\<close>

theorem coinbase_prevalidation:
  "(prevalidate_miner_transaction cur b h \<longleftrightarrow>
      inputs (baseTransaction b) = [BaseInput h] \<and>
      signatures (baseTransaction b) = [] \<and>
      unlockTime (baseTransaction b) =
        ucast h + (if majorVersion b < 5 then minedMoneyUnlockWindow cur
                   else minedMoneyUnlockWindow_v1 cur) \<and>
      check_outs_overflow (baseTransaction b)) \<and>
   (fst (pushBlock_txs env st b txs bid bvc) = Ok True \<and>
    \<not> is_in_checkpoint_zone (checkpoints env) (m_height st) \<longrightarrow>
      prevalidate_miner_transaction (currency env) b (m_height st)) \<and>
   (handle_alternative_block_chain env switch sendmsg st b bid bvc alt_chain mph
      = Some (Ok True, st', bvc') \<longrightarrow>
      prevalidate_miner_transaction (currency env) b
        (if alt_chain \<noteq> [] then height (snd (last alt_chain)) + 1 else mph + 1))"
  using prevalidate_miner_transaction_iff [of cur b h]
    pushBlock_txs_prevalidated [of env st b txs bid bvc]
    handle_alternative_block_chain_prevalidated [of env switch sendmsg st b bid bvc alt_chain mph st' bvc']
  by blast

text \<open>
  The genesis block is accepted on the empty chain without checkpoints, and its
  coinbase has the shape that the theorem gives.
\<close>

theorem coinbase_prevalidation_witness:
  "fst (pushBlock_txs (example_env no_checkpoints) empty_chain genesis [] 1 bvc0) = Ok True \<and>
   prevalidate_miner_transaction example_currency genesis 0 \<and>
   inputs (baseTransaction genesis) = [BaseInput 0] \<and>
   signatures (baseTransaction genesis) = [] \<and>
   unlockTime (baseTransaction genesis) = 10 \<and>
   check_outs_overflow (baseTransaction genesis)"
proof -
  let ?env = "example_env no_checkpoints"
  have acc: "fst (pushBlock_txs ?env empty_chain genesis [] 1 bvc0) = Ok True"
    by (simp add: example_defs model_defs Let_def)
  have nz: "\<not> is_in_checkpoint_zone (checkpoints ?env) (m_height empty_chain)"
    by (simp add: example_defs)
  have p: "prevalidate_miner_transaction (currency ?env) genesis (m_height empty_chain)"
    using coinbase_prevalidation [where env = ?env and st = empty_chain and b = genesis
        and txs = "[]" and bid = 1 and bvc = bvc0] acc nz by blast
  then have p': "prevalidate_miner_transaction example_currency genesis 0"
    by (simp add: example_env_def empty_chain_def)
  have "inputs (baseTransaction genesis) = [BaseInput 0] \<and>
      signatures (baseTransaction genesis) = [] \<and>
      unlockTime (baseTransaction genesis) =
        ucast (0 :: u32) + (if majorVersion genesis < 5 then minedMoneyUnlockWindow example_currency
                   else minedMoneyUnlockWindow_v1 example_currency) \<and>
      check_outs_overflow (baseTransaction genesis)"
    using coinbase_prevalidation [where cur = example_currency and b = genesis and h = 0] p'
    by blast
  then show ?thesis using acc p' by (simp add: example_defs)
qed

text \<open>
  Claim C8 as stated fails: inside the checkpoint zone \<open>pushBlock\<close> accepts a block
  whose coinbase has two \<open>KeyInput\<close>s and a wrong unlock time.
\<close>

theorem coinbase_prevalidation_counterexample:
  "is_in_checkpoint_zone zone_checkpoints (m_height (chain_g zone_checkpoints)) \<and>
   fst (pushBlock_txs (example_env zone_checkpoints) (chain_g zone_checkpoints) block_bad [] 5 bvc0)
     = Ok True \<and>
   m_added_to_main_chain
     (snd (snd (pushBlock_txs (example_env zone_checkpoints) (chain_g zone_checkpoints) block_bad [] 5 bvc0))) \<and>
   blocks (m_db (fst (snd (pushBlock_txs (example_env zone_checkpoints) (chain_g zone_checkpoints)
      block_bad [] 5 bvc0)))) 5 \<noteq> None \<and>
   \<not> prevalidate_miner_transaction example_currency block_bad 1 \<and>
   length (inputs (baseTransaction block_bad)) = 2 \<and>
   unlockTime (baseTransaction block_bad) \<noteq> 1 + minedMoneyUnlockWindow example_currency"
  by (simp add: chain_g_def example_defs model_defs Let_def)

text \<open>
  Claim C5. \<open>validate_miner_transaction\<close> accepts exactly when \<open>getBlockReward\<close>, on the
  median of the sizes of the last \<open>rewardBlocksWindow\<close> blocks, the size of the
  block, the coins generated so far and the fees, grants a reward and the sum of
  the coinbase outputs is equal to it; a sum one unit above or below the reward is
  rejected. The sum is the \<open>uint64_t\<close> accumulator of the source; for a coinbase that
  has passed the overflow check of the prevalidation it is the exact sum of the
  amounts.
\<close>

theorem validate_miner_transaction_exact:
  "(validate_miner_transaction env st b h sz gen fee = Some (r, e) \<longleftrightarrow>
      getBlockReward (currency env) (getBlockMajorVersionForHeight (currency env) h)
        (medianValue (get_last_n_blocks_sizes env st (rewardBlocksWindow (currency env))))
        sz gen fee = Some (r, e) \<and> minerReward b = r) \<and>
   (getBlockReward (currency env) (getBlockMajorVersionForHeight (currency env) h)
        (medianValue (get_last_n_blocks_sizes env st (rewardBlocksWindow (currency env))))
        sz gen fee = Some (r, e) \<and> (minerReward b = r + 1 \<or> minerReward b + 1 = r) \<longrightarrow>
      validate_miner_transaction env st b h sz gen fee = None) \<and>
   (check_outs_overflow (baseTransaction b) \<and>
    validate_miner_transaction env st b h sz gen fee = Some (r, e) \<longrightarrow>
      sum_list (map (\<lambda>out. unat (amount out)) (outputs (baseTransaction b))) = unat r)"
proof -
  have iff: "validate_miner_transaction env st b h sz gen fee = Some (r, e) \<longleftrightarrow>
      getBlockReward (currency env) (getBlockMajorVersionForHeight (currency env) h)
        (medianValue (get_last_n_blocks_sizes env st (rewardBlocksWindow (currency env))))
        sz gen fee = Some (r, e) \<and> minerReward b = r" for r e
    by (auto simp: validate_miner_transaction_def Let_def split: option.splits prod.splits)
  have off: "validate_miner_transaction env st b h sz gen fee = None"
    if "getBlockReward (currency env) (getBlockMajorVersionForHeight (currency env) h)
        (medianValue (get_last_n_blocks_sizes env st (rewardBlocksWindow (currency env))))
        sz gen fee = Some (r, e)" "minerReward b = r + 1 \<or> minerReward b + 1 = r"
  proof -
    have "minerReward b \<noteq> r" using that(2) by auto
    then show ?thesis using that(1)
      by (auto simp: validate_miner_transaction_def Let_def split: option.splits prod.splits)
  qed
  show ?thesis using iff off minerReward_exact [of b] by auto
qed

text \<open>
  On the chain of the genesis block with a reward of 50: a coinbase of 50 passes,
  coinbases of 51 and of 49 are rejected.
\<close>

theorem validate_miner_transaction_exact_witness:
  "validate_miner_transaction (example_env no_checkpoints) (chain_g no_checkpoints)
     block_a 1 100 50 0 = Some (50, 50) \<and>
   validate_miner_transaction (example_env no_checkpoints) (chain_g no_checkpoints)
     (block_a\<lparr>baseTransaction := coinbase 1 51\<rparr>) 1 100 50 0 = None \<and>
   validate_miner_transaction (example_env no_checkpoints) (chain_g no_checkpoints)
     (block_a\<lparr>baseTransaction := coinbase 1 49\<rparr>) 1 100 50 0 = None \<and>
   sum_list (map (\<lambda>out. unat (amount out)) (outputs (baseTransaction block_a))) = 50"
proof -
  let ?env = "example_env no_checkpoints" and ?st = "chain_g no_checkpoints"
  have rw: "getBlockReward (currency ?env) (getBlockMajorVersionForHeight (currency ?env) 1)
        (medianValue (get_last_n_blocks_sizes ?env ?st (rewardBlocksWindow (currency ?env))))
        100 50 0 = Some (50, 50)"
    by (simp add: example_env_def example_currency_def)
  have m50: "minerReward block_a = 50" by (simp add: example_defs minerReward_def)
  have m51: "minerReward (block_a\<lparr>baseTransaction := coinbase 1 51\<rparr>) = 50 + 1"
    by (simp add: example_defs minerReward_def)
  have m49: "minerReward (block_a\<lparr>baseTransaction := coinbase 1 49\<rparr>) + 1 = 50"
    by (simp add: example_defs minerReward_def)
  have ov: "check_outs_overflow (baseTransaction block_a)"
    by (simp add: example_defs check_outs_overflow_def)
  have a: "validate_miner_transaction ?env ?st block_a 1 100 50 0 = Some (50, 50)"
    using validate_miner_transaction_exact [where env = ?env and st = ?st and b = block_a
        and h = 1 and sz = 100 and gen = 50 and fee = 0 and r = 50 and e = 50] rw m50 by blast
  have b: "validate_miner_transaction ?env ?st (block_a\<lparr>baseTransaction := coinbase 1 51\<rparr>) 1 100 50 0 = None"
    using validate_miner_transaction_exact [where env = ?env and st = ?st
        and b = "block_a\<lparr>baseTransaction := coinbase 1 51\<rparr>"
        and h = 1 and sz = 100 and gen = 50 and fee = 0 and r = 50 and e = 50] rw m51 by blast
  have c: "validate_miner_transaction ?env ?st (block_a\<lparr>baseTransaction := coinbase 1 49\<rparr>) 1 100 50 0 = None"
    using validate_miner_transaction_exact [where env = ?env and st = ?st
        and b = "block_a\<lparr>baseTransaction := coinbase 1 49\<rparr>"
        and h = 1 and sz = 100 and gen = 50 and fee = 0 and r = 50 and e = 50] rw m49 by blast
  have d: "sum_list (map (\<lambda>out. unat (amount out)) (outputs (baseTransaction block_a))) = unat (50 :: u64)"
    using validate_miner_transaction_exact [where env = ?env and st = ?st and b = block_a
        and h = 1 and sz = 100 and gen = 50 and fee = 0 and r = 50 and e = 50] ov a by blast
  show ?thesis using a b c d by simp
qed

section \<open>A block that is already known\<close>

lemma addNewBlock_already_exists:
  "get_block_hash (tools env) b = Some bid \<Longrightarrow>
   blocks (m_db st) bid \<noteq> None \<or> m_alternative_chains st bid \<noteq> None \<Longrightarrow>
   addNewBlock env alt st b bvc = Some (Ok False, st, bvc\<lparr>m_already_exists := True\<rparr>)"
  by (auto simp: addNewBlock_def haveBlock_def)

text \<open>
  Claim C7. A block whose hash is the hash of a block record of the store or of an
  entry of the map of alternative blocks is answered at once: \<open>ingest\<close> returns,
  reports no success, sets \<open>m_already_exists\<close> and nothing else in the verification
  context (\<open>m_verification_failed\<close> and \<open>m_added_to_main_chain\<close> stay as the caller
  passed them), and the state that comes back is the state that went in: the store
  with all its indices, the map of alternative blocks, the cached height, the pool.
\<close>

theorem ingest_already_exists:
  "get_block_hash (tools env) b = Some bid \<and>
   (blocks (m_db st) bid \<noteq> None \<or> m_alternative_chains st bid \<noteq> None) \<longrightarrow>
   ingest env switch st b bvc = Some (Ok False, st, bvc\<lparr>m_already_exists := True\<rparr>) \<and>
   m_verification_failed (bvc\<lparr>m_already_exists := True\<rparr>) = m_verification_failed bvc \<and>
   m_added_to_main_chain (bvc\<lparr>m_already_exists := True\<rparr>) = m_added_to_main_chain bvc"
  using addNewBlock_already_exists [of env b bid st "handle_alternative_block env switch True" bvc]
  by (auto simp: ingest_def)

text \<open>
  The genesis block ingested again into the chain that holds it, and a block whose
  hash is in the map of alternative blocks.
\<close>

theorem ingest_already_exists_witness:
  "ingest (example_env no_checkpoints)
     (switch_to_alternative_blockchain (example_env no_checkpoints) example_parameters 1)
     (chain_g no_checkpoints) genesis bvc0
     = Some (Ok False, chain_g no_checkpoints, bvc0\<lparr>m_already_exists := True\<rparr>) \<and>
   ingest (example_env no_checkpoints)
     (switch_to_alternative_blockchain (example_env no_checkpoints) example_parameters 1)
     (empty_chain\<lparr>m_alternative_chains := [6 \<mapsto> zero_entry]\<rparr>) block_alt bvc0
     = Some (Ok False, empty_chain\<lparr>m_alternative_chains := [6 \<mapsto> zero_entry]\<rparr>,
             bvc0\<lparr>m_already_exists := True\<rparr>)"
proof -
  let ?env = "example_env no_checkpoints"
  have h1: "get_block_hash (tools ?env) genesis = Some 1"
    by (simp add: example_defs)
  have b1: "blocks (m_db (chain_g no_checkpoints)) 1 \<noteq> None"
    by (simp add: chain_g_def example_defs model_defs Let_def)
  have h2: "get_block_hash (tools ?env) block_alt = Some 6"
    by (simp add: example_defs)
  have b2: "m_alternative_chains (empty_chain\<lparr>m_alternative_chains := [6 \<mapsto> zero_entry]\<rparr>) 6 \<noteq> None"
    by simp
  show ?thesis
    using ingest_already_exists [where env = ?env and b = genesis and bid = 1
        and st = "chain_g no_checkpoints" and bvc = bvc0
        and switch = "switch_to_alternative_blockchain ?env example_parameters 1"]
      ingest_already_exists [where env = ?env and b = block_alt and bid = 6
        and st = "empty_chain\<lparr>m_alternative_chains := [6 \<mapsto> zero_entry]\<rparr>"
        and switch = "switch_to_alternative_blockchain ?env example_parameters 1" and bvc = bvc0]
      h1 b1 h2 b2 by blast
qed

section \<open>Removing the last block\<close>

lemma removeLastBlock_keeps_height:
  "m_height (snd (removeLastBlock env st)) = m_height st"
  by (auto simp: removeLastBlock_def Let_def
      split: option.splits prod.splits outcome.splits if_splits)

lemma popBlock_keeps_height:
  "m_height (snd (popBlock env st)) = m_height st"
  using removeLastBlock_keeps_height [of env "saveTransactions (tools env) txs st" for txs]
  by (auto simp: popBlock_def saveTransactions_def Let_def split: option.splits prod.splits)

lemma rollbackBlockchainTo_never_done:
  assumes "rollbackBlockchainTo env h st = Some y"
  shows "h + 1 < m_height st \<longrightarrow> fst y \<noteq> Ok ()"
proof (rule rollbackBlockchainTo.raw_induct
    [where P = "\<lambda>env h st y. h + 1 < m_height st \<longrightarrow> fst y \<noteq> Ok ()", OF _ assms])
  fix rb env h st y
  assume ih: "\<And>env h st y. rb env h st = Some y \<Longrightarrow> h + 1 < m_height st \<longrightarrow> fst y \<noteq> Ok ()"
    and eq: "(if h + 1 < m_height st
              then case removeLastBlock env st of
                     (Ok u, st') \<Rightarrow> rb env h st'
                   | (Fail f, st') \<Rightarrow> Some (Fail f, st')
              else Some (Ok (), st)) = Some y"
  show "h + 1 < m_height st \<longrightarrow> fst y \<noteq> Ok ()"
  proof
    assume c: "h + 1 < m_height st"
    obtain r st' where rl: "removeLastBlock env st = (r, st')" by (cases "removeLastBlock env st")
    have mh: "m_height st' = m_height st"
      using removeLastBlock_keeps_height [of env st] rl by simp
    show "fst y \<noteq> Ok ()"
    proof (cases r)
      case (Ok u)
      then have "rb env h st' = Some y" using eq c rl by simp
      then show ?thesis using ih [of env h st' y] c mh by simp
    next
      case (Fail f)
      then show ?thesis using eq c rl by auto
    qed
  qed
qed

lemma rollbackBlockchainTo_empty_index:
  assumes "rollbackBlockchainTo env h st = Some y"
  shows "\<not> (h + 1 < m_height st \<and> block_index (m_db st) = [])"
proof (rule rollbackBlockchainTo.raw_induct
    [where P = "\<lambda>env h st y. \<not> (h + 1 < m_height st \<and> block_index (m_db st) = [])", OF _ assms])
  fix rb env h st y
  assume ih: "\<And>env h st y. rb env h st = Some y \<Longrightarrow>
                 \<not> (h + 1 < m_height st \<and> block_index (m_db st) = [])"
    and eq: "(if h + 1 < m_height st
              then case removeLastBlock env st of
                     (Ok u, st') \<Rightarrow> rb env h st'
                   | (Fail f, st') \<Rightarrow> Some (Fail f, st')
              else Some (Ok (), st)) = Some y"
  show "\<not> (h + 1 < m_height st \<and> block_index (m_db st) = [])"
  proof
    assume c: "h + 1 < m_height st \<and> block_index (m_db st) = []"
    then have "removeLastBlock env st = (Ok (), st)"
      by (simp add: removeLastBlock_def cursor_rbegin_def)
    then have "rb env h st = Some y" using eq c by simp
    then show False using ih [of env h st y] c by blast
  qed
qed

text \<open>
  Claim C3, as the code has it. \<open>removeLastBlock\<close> stores in \<open>m_height\<close> the value it
  has loaded from it, so the height that \<open>getCurrentBlockchainHeight\<close> reports after
  \<open>removeLastBlock\<close> and after \<open>popBlock\<close> is the height it reported before, whatever
  the state and whether or not the call throws. The loop of \<open>rollbackBlockchainTo\<close>,
  once entered, is therefore never left by its condition: when the call returns,
  an exception has ended it, and on an empty height index, where \<open>removeLastBlock\<close>
  returns at once, the call does not return.
\<close>

theorem pop_keeps_reported_height:
  "getCurrentBlockchainHeight (snd (removeLastBlock env st)) = getCurrentBlockchainHeight st \<and>
   getCurrentBlockchainHeight (snd (popBlock env st)) = getCurrentBlockchainHeight st \<and>
   (h + 1 < m_height st \<and> rollbackBlockchainTo env h st = Some (r, st') \<longrightarrow> r \<noteq> Ok ()) \<and>
   (h + 1 < m_height st \<and> block_index (m_db st) = [] \<longrightarrow> rollbackBlockchainTo env h st = None)"
  using removeLastBlock_keeps_height [of env st] popBlock_keeps_height [of env st]
    rollbackBlockchainTo_never_done [of env h st "(r, st')"]
    rollbackBlockchainTo_empty_index [of env h st]
  by (cases "rollbackBlockchainTo env h st") (auto simp: getCurrentBlockchainHeight_def)

text \<open>
  On the chain of the genesis block and one more block the reported height is 2
  before and after \<open>popBlock\<close> and \<open>removeLastBlock\<close>, and the rollback to height 0
  ends with the exception of the first \<open>removeLastBlock\<close>.
\<close>

theorem pop_keeps_reported_height_witness:
  "getCurrentBlockchainHeight (chain_ga no_checkpoints) = 2 \<and>
   getCurrentBlockchainHeight (snd (popBlock (example_env no_checkpoints) (chain_ga no_checkpoints))) = 2 \<and>
   getCurrentBlockchainHeight (snd (removeLastBlock (example_env no_checkpoints) (chain_ga no_checkpoints))) = 2 \<and>
   rollbackBlockchainTo (example_env no_checkpoints) 0 (chain_ga no_checkpoints) =
     Some (Fail Exception, snd (removeLastBlock (example_env no_checkpoints) (chain_ga no_checkpoints))) \<and>
   rollbackBlockchainTo (example_env no_checkpoints) 0 (empty_chain\<lparr>m_height := 5\<rparr>) = None"
proof -
  let ?env = "example_env no_checkpoints" and ?st = "chain_ga no_checkpoints"
  have g: "getCurrentBlockchainHeight ?st = 2"
    by (simp add: chain_g_def chain_ga_def example_defs model_defs Let_def)
  have f: "fst (removeLastBlock ?env ?st) = Fail Exception"
    by (simp add: chain_g_def chain_ga_def example_defs model_defs Let_def)
  have lt: "(0 :: u32) + 1 < m_height ?st"
    using g by (simp add: getCurrentBlockchainHeight_def)
  have rb: "rollbackBlockchainTo ?env 0 ?st = Some (Fail Exception, snd (removeLastBlock ?env ?st))"
    using lt f by (subst rollbackBlockchainTo.simps) (cases "removeLastBlock ?env ?st", simp)
  have e: "(0 :: u32) + 1 < m_height (empty_chain\<lparr>m_height := 5\<rparr>) \<and>
           block_index (m_db (empty_chain\<lparr>m_height := 5\<rparr>)) = []"
    by (simp add: example_defs)
  show ?thesis
    using pop_keeps_reported_height [where env = ?env and st = ?st]
      pop_keeps_reported_height [where env = ?env and st = "empty_chain\<lparr>m_height := 5\<rparr>" and h = 0]
      g rb e by simp
qed

text \<open>
  Claim C2, as the code has it. The block of height 1 is pushed on the chain of the
  genesis block and accepted; \<open>removeLastBlock\<close> (and \<open>popBlock\<close>, which calls it) then
  reads the tip key 1 of the height index, takes \<open>height = 2\<close> and deletes the keys
  of height 2: the delete of \<open>b/2\<close>, which asserts that the key exists, throws. The
  store it leaves differs from the store before the push: the height index still
  maps 1 to the block, the list of outputs of amount 50 still has the output of
  the removed block (the list that \<open>popTransaction\<close> has shortened is not written
  back) and the count of generated transactions is still there under key 1.
\<close>

theorem push_pop_round_trip_fails:
  "fst (pushBlock_txs (example_env no_checkpoints) (chain_g no_checkpoints) block_a [] 2 bvc0) = Ok True \<and>
   fst (removeLastBlock (example_env no_checkpoints) (chain_ga no_checkpoints)) = Fail Exception \<and>
   fst (popBlock (example_env no_checkpoints) (chain_ga no_checkpoints)) = Fail Exception \<and>
   m_db (snd (popBlock (example_env no_checkpoints) (chain_ga no_checkpoints))) =
     m_db (snd (removeLastBlock (example_env no_checkpoints) (chain_ga no_checkpoints))) \<and>
   map_of (block_index (m_db (chain_g no_checkpoints))) 1 = None \<and>
   map_of (block_index (m_db (snd (removeLastBlock (example_env no_checkpoints) (chain_ga no_checkpoints))))) 1
     = Some 2 \<and>
   outputs_index (m_db (chain_g no_checkpoints)) 50 = Some [(\<lparr>block = 0, transaction = 0\<rparr>, 0)] \<and>
   outputs_index (m_db (snd (removeLastBlock (example_env no_checkpoints) (chain_ga no_checkpoints)))) 50 =
      Some [(\<lparr>block = 0, transaction = 0\<rparr>, 0), (\<lparr>block = 1, transaction = 0\<rparr>, 0)] \<and>
   generated_transactions_index (m_db (chain_g no_checkpoints)) 1 = None \<and>
   generated_transactions_index
     (m_db (snd (removeLastBlock (example_env no_checkpoints) (chain_ga no_checkpoints)))) 1 = Some 1"
  by (simp add: chain_g_def chain_ga_def example_defs model_defs Let_def)

section \<open>Spending a key image twice\<close>

lemma iterate_preserves:
  assumes "\<And>x s. P s \<Longrightarrow> P (snd (f x s))" "P s"
  shows "P (snd (iterate f xs s))"
  using assms(2)
proof (induction xs arbitrary: s)
  case Nil
  then show ?case by simp
next
  case (Cons x xs)
  have "P (snd (f x s))" using assms(1) Cons.prems by blast
  then show ?case using Cons.IH [of "snd (f x s)"]
    by (cases "f x s") (auto split: outcome.splits)
qed

lemma unspend_step_chain: "chain_part (snd (unspend_step i db)) = chain_part db"
  by (auto simp: unspend_step_def chain_part_def map_del_def split: TransactionInput.splits option.splits)

lemma unspend_step_spent:
  "spent_key_images db k \<noteq> None \<Longrightarrow> (\<forall>a offs. i \<noteq> KeyInput a offs k) \<Longrightarrow>
   spent_key_images (snd (unspend_step i db)) k \<noteq> None"
  by (auto simp: unspend_step_def map_del_def split: TransactionInput.splits option.splits if_splits)

lemma iterate_unspend_spent:
  "spent_key_images db k \<noteq> None \<Longrightarrow> (\<forall>a offs. KeyInput a offs k \<notin> set ds) \<Longrightarrow>
   spent_key_images (snd (iterate unspend_step ds db)) k \<noteq> None"
proof (induction ds arbitrary: db)
  case Nil
  then show ?case by simp
next
  case (Cons d ds)
  have "spent_key_images (snd (unspend_step d db)) k \<noteq> None"
    using Cons.prems by (intro unspend_step_spent) auto
  then show ?case using Cons.IH [of "snd (unspend_step d db)"] Cons.prems(2)
    by (cases "unspend_step d db") (auto split: outcome.splits)
qed

lemma iterate_unspend_chain: "chain_part (snd (iterate unspend_step ds db)) = chain_part db"
  by (rule iterate_preserves [where P = "\<lambda>s. chain_part s = chain_part db"])
     (simp_all add: unspend_step_chain)

lemma spend_key_images_spent:
  "spent_key_images db k \<noteq> None \<Longrightarrow> (\<forall>a offs. KeyInput a offs k \<notin> set ds) \<Longrightarrow>
   spent_key_images (snd (spend_key_images h txh ds ins db)) k \<noteq> None"
proof (induction h txh ds ins db rule: spend_key_images.induct)
  case (2 h txh ds a offs ki rest db)
  show ?case
  proof (cases "map_put (spent_key_images db) ki (ucast h) True")
    case None
    have "spent_key_images (snd (iterate unspend_step ds db)) k \<noteq> None"
      using "2.prems" by (rule iterate_unspend_spent)
    then show ?thesis using None
      by (auto simp: map_del_def split: prod.splits outcome.splits option.splits if_splits)
  next
    case (Some m)
    then have ne: "ki \<noteq> k" and m: "m = (spent_key_images db)(ki \<mapsto> ucast h)"
      using "2.prems"(1) by (auto simp: map_put_def split: if_splits)
    have "spent_key_images (snd (spend_key_images h txh (KeyInput a offs ki # ds) rest
            (db\<lparr>spent_key_images := m\<rparr>))) k \<noteq> None"
      using "2.prems" ne m by (intro "2.IH" [OF Some]) auto
    then show ?thesis using Some by simp
  qed
qed simp_all

lemma spend_key_images_chain:
  "chain_part (snd (spend_key_images h txh ds ins db)) = chain_part db"
proof (induction h txh ds ins db rule: spend_key_images.induct)
  case (2 h txh ds a offs ki rest db)
  show ?case
  proof (cases "map_put (spent_key_images db) ki (ucast h) True")
    case None
    then show ?thesis using iterate_unspend_chain [of ds db]
      by (auto simp: chain_part_def map_del_def split: prod.splits outcome.splits option.splits if_splits)
  next
    case (Some m)
    then show ?thesis using "2.IH" [OF Some] by (simp add: chain_part_def)
  qed
qed simp_all


lemma use_multisignature_step_keeps:
  "chain_part (snd (use_multisignature_step i db)) = chain_part db"
  "spent_key_images (snd (use_multisignature_step i db)) = spent_key_images db"
  by (auto simp: use_multisignature_step_def chain_part_def split: TransactionInput.splits option.splits)

lemma push_output_step_keeps:
  "chain_part (fst (snd (push_output_step ti io s))) = chain_part (fst s)"
  "spent_key_images (fst (snd (push_output_step ti io s))) = spent_key_images (fst s)"
  by (auto simp: push_output_step_def chain_part_def
      split: prod.splits TransactionOutputTarget.splits option.splits)

lemma push_payment_id_keeps:
  "chain_part (push_payment_id tls t h db) = chain_part db"
  "spent_key_images (push_payment_id tls t h db) = spent_key_images db"
  by (auto simp: push_payment_id_def chain_part_def split: option.splits)

lemma iterate_use_multisignature_keeps:
  "chain_part (snd (iterate use_multisignature_step ins db)) = chain_part db"
  "spent_key_images (snd (iterate use_multisignature_step ins db)) = spent_key_images db"
proof -
  show "chain_part (snd (iterate use_multisignature_step ins db)) = chain_part db"
    by (rule iterate_preserves [where P = "\<lambda>s. chain_part s = chain_part db"])
       (simp_all add: use_multisignature_step_keeps)
  show "spent_key_images (snd (iterate use_multisignature_step ins db)) = spent_key_images db"
    by (rule iterate_preserves [where P = "\<lambda>s. spent_key_images s = spent_key_images db"])
       (simp_all add: use_multisignature_step_keeps)
qed

lemma iterate_push_output_keeps:
  "chain_part (fst (snd (iterate (push_output_step ti) ios s))) = chain_part (fst s)"
  "spent_key_images (fst (snd (iterate (push_output_step ti) ios s))) = spent_key_images (fst s)"
proof -
  show "chain_part (fst (snd (iterate (push_output_step ti) ios s))) = chain_part (fst s)"
    by (rule iterate_preserves [where P = "\<lambda>x. chain_part (fst x) = chain_part (fst s)"])
       (simp_all add: push_output_step_keeps)
  show "spent_key_images (fst (snd (iterate (push_output_step ti) ios s))) = spent_key_images (fst s)"
    by (rule iterate_preserves [where P = "\<lambda>x. spent_key_images (fst x) = spent_key_images (fst s)"])
       (simp_all add: push_output_step_keeps)
qed

lemma pushTransaction_spent:
  assumes "spent_key_images db k \<noteq> None"
  shows "spent_key_images (fst (snd (pushTransaction tls db blk txh ti))) k \<noteq> None"
proof (cases "map_put (transactions_index db) txh ti True")
  case None
  then show ?thesis using assms by (simp add: pushTransaction_def)
next
  case (Some t)
  let ?db1 = "db\<lparr>transactions_index := t\<rparr>"
  let ?te = "transactions blk ! unat (transaction ti)"
  have s1: "spent_key_images (snd (spend_key_images (height blk) txh [] (inputs (tx ?te)) ?db1)) k \<noteq> None"
    using assms by (intro spend_key_images_spent) auto
  show ?thesis
    using Some assms s1
      iterate_use_multisignature_keeps(2)
        [of "inputs (tx ?te)" "snd (spend_key_images (height blk) txh [] (inputs (tx ?te)) ?db1)"]
      iterate_push_output_keeps(2) [of ti]
    apply (simp add: pushTransaction_def Let_def push_payment_id_keeps
        split: prod.splits outcome.splits bool.splits)
    apply (auto simp: push_payment_id_keeps)
    apply (metis fst_conv snd_conv)+
    done
qed


lemma pushTransaction_chain:
  "chain_part (fst (snd (pushTransaction tls db blk txh ti))) = chain_part db"
proof (cases "map_put (transactions_index db) txh ti True")
  case None
  then show ?thesis by (simp add: pushTransaction_def)
next
  case (Some t)
  let ?db1 = "db\<lparr>transactions_index := t\<rparr>"
  let ?te = "transactions blk ! unat (transaction ti)"
  have c1: "chain_part ?db1 = chain_part db" by (simp add: chain_part_def)
  have s1: "chain_part (snd (spend_key_images (height blk) txh [] (inputs (tx ?te)) ?db1)) = chain_part db"
    using spend_key_images_chain [of "height blk" txh "[]" "inputs (tx ?te)" ?db1] c1 by simp
  show ?thesis
    using Some s1 c1
      iterate_use_multisignature_keeps(1)
        [of "inputs (tx ?te)" "snd (spend_key_images (height blk) txh [] (inputs (tx ?te)) ?db1)"]
      iterate_push_output_keeps(1) [of ti]
    apply (simp add: pushTransaction_def Let_def push_payment_id_keeps
        split: prod.splits outcome.splits bool.splits)
    apply (auto simp: push_payment_id_keeps chain_part_def)
    apply (metis fst_conv snd_conv)+
    done
qed

lemma pop_output_step_chain: "chain_part (snd (pop_output_step ti io db)) = chain_part db"
  by (auto simp: pop_output_step_def chain_part_def
      split: prod.splits TransactionOutputTarget.splits option.splits)

lemma pop_input_step_chain: "chain_part (snd (pop_input_step i db)) = chain_part db"
  by (auto simp: pop_input_step_def chain_part_def map_del_def
      split: TransactionInput.splits option.splits)

lemma popTransaction_chain: "chain_part (snd (popTransaction tls db t h)) = chain_part db"
proof (cases "transactions_index db h")
  case None
  then show ?thesis by (simp add: popTransaction_def)
next
  case (Some ti)
  let ?d1 = "snd (iterate (pop_output_step ti) (rev (zip [0..<length (outputs t)] (outputs t))) db)"
  have a: "chain_part ?d1 = chain_part db"
    by (rule iterate_preserves [where P = "\<lambda>s. chain_part s = chain_part db"])
       (simp_all add: pop_output_step_chain)
  have b: "chain_part (snd (iterate pop_input_step (inputs t) ?d1)) = chain_part db"
    by (rule iterate_preserves [where P = "\<lambda>s. chain_part s = chain_part db"])
       (simp_all add: pop_input_step_chain a)
  show ?thesis using Some a b
    by (auto simp: popTransaction_def Let_def chain_part_def
        split: prod.splits outcome.splits option.splits)
qed

lemma popTransactions_chain: "chain_part (snd (popTransactions tls db blk h)) = chain_part db"
proof -
  let ?n = "length (transactions blk)"
  let ?f = "\<lambda>i d. if ?n - 2 - i < length (transactionHashes (bl blk))
                        then popTransaction tls d (tx (transactions blk ! (?n - 1 - i)))
                               (transactionHashes (bl blk) ! (?n - 2 - i))
                        else (Fail Undefined, d)"
  have a: "chain_part (snd (iterate ?f [0..<?n - 1] db)) = chain_part db"
    by (rule iterate_preserves [where P = "\<lambda>s. chain_part s = chain_part db"])
       (simp_all add: popTransaction_chain)
  show ?thesis using a popTransaction_chain [of tls "snd (iterate ?f [0..<?n - 1] db)"]
    by (auto simp: popTransactions_def Let_def split: prod.splits outcome.splits)
qed

lemma checkTransactionInputs_from_spent:
  "checkTransactionInputs_from env st t i ins = Ok True \<Longrightarrow>
   KeyInput a offs k \<in> set ins \<Longrightarrow> spent_key_images (m_db st) k = None"
proof (induction env st t i ins rule: checkTransactionInputs_from.induct)
  case (2 env st t i a' offs' ki rest)
  then show ?case
    by (auto simp: have_tx_keyimg_as_spent_def checkIfSpent_def split: if_splits)
next
  case (3 env st t i a' sc oi rest)
  then show ?case by (auto split: if_splits)
qed simp_all


lemma push_block_transactions_chain:
  "chain_part (m_db (l_st (snd (push_block_transactions env b mh i txs l)))) = chain_part (m_db (l_st l))"
proof (induction txs arbitrary: i l)
  case Nil
  then show ?case by simp
next
  case (Cons t rest)
  show ?case
  proof (cases "i < length (transactionHashes b)")
    case False
    then show ?thesis by simp
  next
    case True
    let ?blk = "(l_block l)\<lparr>transactions := transactions (l_block l) @ [\<lparr>tx = t, m_global_output_indexes = []\<rparr>]\<rparr>"
    let ?ti = "(l_index l)\<lparr>transaction := transaction (l_index l) + 1\<rparr>"
    let ?p = "pushTransaction (tools env) (m_db (l_st l)) ?blk (transactionHashes b ! i) ?ti"
    have pc: "chain_part (fst (snd ?p)) = chain_part (m_db (l_st l))"
      by (rule pushTransaction_chain)
    have pp: "chain_part (snd (popTransactions (tools env) (m_db (l_st l)) (l_block l) mh)) = chain_part (m_db (l_st l))"
      by (rule popTransactions_chain)
    show ?thesis using True pc pp
      by (auto simp: Let_def Cons.IH split: outcome.splits bool.splits prod.splits)
  qed
qed

lemma push_block_transactions_double_spend:
  assumes "spent_key_images (m_db (l_st l)) k \<noteq> None"
    and "\<not> is_in_checkpoint_zone (checkpoints env) (m_height (l_st l))"
    and "t \<in> set txs" and "KeyInput a offs k \<in> set (inputs t)"
  shows "fst (push_block_transactions env b mh i txs l) \<noteq> Ok True"
  using assms
proof (induction txs arbitrary: i l)
  case Nil
  then show ?case by simp
next
  case (Cons t0 rest)
  show ?case
  proof (cases "i < length (transactionHashes b)")
    case False
    then show ?thesis by simp
  next
    case True
    let ?blk = "(l_block l)\<lparr>transactions := transactions (l_block l) @ [\<lparr>tx = t0, m_global_output_indexes = []\<rparr>]\<rparr>"
    let ?ti = "(l_index l)\<lparr>transaction := transaction (l_index l) + 1\<rparr>"
    let ?p = "pushTransaction (tools env) (m_db (l_st l)) ?blk (transactionHashes b ! i) ?ti"
    show ?thesis
    proof (cases "checkTransactionInputs env (l_st l) t0")
      case (Fail f)
      then show ?thesis using True Cons.prems(2)
        by (simp add: getCurrentBlockchainHeight_def Let_def)
    next
      case (Ok r)
      show ?thesis
      proof (cases r)
        case False
        then show ?thesis using True Cons.prems(2) Ok
          by (auto simp: getCurrentBlockchainHeight_def Let_def split: prod.splits outcome.splits)
      next
        case r: True
        have not_t0: "KeyInput a offs k \<notin> set (inputs t0)"
          using checkTransactionInputs_from_spent [of env "l_st l" t0 0 "inputs t0" a offs k]
            Ok r Cons.prems(1) by (auto simp: checkTransactionInputs_def)
        then have in_rest: "t \<in> set rest" using Cons.prems(3,4) by auto
        have keep: "spent_key_images (fst (snd ?p)) k \<noteq> None"
          using Cons.prems(1) by (rule pushTransaction_spent)
        show ?thesis
        proof (cases ?p)
          case (fields pr db1 blk1)
          show ?thesis
          proof (cases pr)
            case (Fail f)
            then show ?thesis using True Cons.prems(2) Ok r fields
              by (simp add: getCurrentBlockchainHeight_def Let_def)
          next
            case (Ok r')
            let ?l' = "l\<lparr>l_st := (l_st l)\<lparr>m_db := db1\<rparr>, l_block := blk1, l_index := ?ti,
                       l_size := l_size l + getObjectBinarySize (tools env) t0,
                       l_fee := l_fee l + (getInputAmount (tools env) t0 - getOutputAmount (tools env) t0)\<rparr>"
            have "fst (push_block_transactions env b mh (Suc i) rest ?l') \<noteq> Ok True"
              using keep fields Cons.prems(2) in_rest Cons.prems(4)
              by (intro Cons.IH) auto
            then show ?thesis using True Cons.prems(2) \<open>checkTransactionInputs env (l_st l) t0 = Ok r\<close> r fields Ok
              by (simp add: getCurrentBlockchainHeight_def Let_def)
          qed
        qed
      qed
    qed
  qed
qed


lemma push_block_transactions_bvc:
  "m_added_to_main_chain (l_bvc (snd (push_block_transactions env b mh i txs l)))
     = m_added_to_main_chain (l_bvc l) \<and>
   (fst (push_block_transactions env b mh i txs l) = Ok False \<longrightarrow>
      m_verification_failed (l_bvc (snd (push_block_transactions env b mh i txs l))))"
proof (induction txs arbitrary: i l)
  case Nil
  then show ?case by simp
next
  case (Cons t rest)
  show ?case
    by (cases "i < length (transactionHashes b)")
       (auto simp: Let_def Cons.IH split: outcome.splits bool.splits prod.splits)
qed

lemma pushBlock_index_double_spend:
  assumes "spent_key_images (m_db st) k \<noteq> None"
    and "\<not> is_in_checkpoint_zone (checkpoints env) (next_block_height st)"
    and "t \<in> set txs" and "KeyInput a offs k \<in> set (inputs t)"
  shows "fst (pushBlock_index env st b txs bid bvc d) \<noteq> Ok True"
    and "m_added_to_main_chain (snd (snd (pushBlock_index env st b txs bid bvc d)))
           = m_added_to_main_chain bvc"
    and "fst (pushBlock_index env st b txs bid bvc d) = Ok False \<longrightarrow>
           m_verification_failed (snd (snd (pushBlock_index env st b txs bid bvc d)))"
    and "chain_part (m_db (fst (snd (pushBlock_index env st b txs bid bvc d)))) = chain_part (m_db st)"
proof -
  let ?cur = "cursor_rbegin (block_index (m_db st))"
  let ?mh = "getObjectHash (tools env) (baseTransaction b)"
  let ?st1 = "st\<lparr>m_height := next_block_height st\<rparr>"
  let ?blk = "(uninitialized_entry env)\<lparr>bl := b, height := m_height ?st1,
                     transactions := [\<lparr>tx = baseTransaction b, m_global_output_indexes = []\<rparr>]\<rparr>"
  let ?ti = "\<lparr>block = m_height ?st1, transaction = 0\<rparr>"
  let ?p = "pushTransaction (tools env) (m_db ?st1) ?blk ?mh ?ti"
  have st1: "st\<lparr>m_height := (case ?cur of None \<Rightarrow> 0 | Some (tip, v) \<Rightarrow> ucast tip + 1)\<rparr> = ?st1"
    by (simp add: next_block_height_def)
  have keep: "spent_key_images (fst (snd ?p)) k \<noteq> None"
    using assms(1) by (intro pushTransaction_spent) simp
  have pc: "chain_part (fst (snd ?p)) = chain_part (m_db st)"
    using pushTransaction_chain [of "tools env" "m_db ?st1" ?blk ?mh ?ti] by simp
  obtain pr db1 blk1 where p: "?p = (pr, db1, blk1)" by (cases ?p)
  let ?l = "\<lparr>l_st = ?st1\<lparr>m_db := db1\<rparr>, l_block = blk1, l_index = ?ti,
                      l_size = getObjectBinarySize (tools env) (baseTransaction b), l_fee = 0,
                      l_bvc = bvc\<rparr>"
  let ?loop = "push_block_transactions env b ?mh 0 txs ?l"
  have loop: "fst ?loop \<noteq> Ok True"
    using keep p assms(2-4)
    by (intro push_block_transactions_double_spend [where k = k and t = t and a = a and offs = offs]) auto
  have lc: "chain_part (m_db (l_st (snd ?loop))) = chain_part (m_db st)"
    using push_block_transactions_chain [of env b ?mh 0 txs ?l] pc p by simp
  have lb: "m_added_to_main_chain (l_bvc (snd ?loop)) = m_added_to_main_chain bvc"
    "fst ?loop = Ok False \<longrightarrow> m_verification_failed (l_bvc (snd ?loop))"
    using push_block_transactions_bvc [of env b ?mh 0 txs ?l] by simp_all
  obtain lr l' where l: "?loop = (lr, l')" by (cases ?loop)
  show "fst (pushBlock_index env st b txs bid bvc d) \<noteq> Ok True"
    using p l loop unfolding pushBlock_index_def Let_def st1
    by (cases pr; cases lr) (auto split: option.splits bool.splits)
  show "m_added_to_main_chain (snd (snd (pushBlock_index env st b txs bid bvc d)))
           = m_added_to_main_chain bvc"
    using p l loop lb unfolding pushBlock_index_def Let_def st1
    by (cases pr; cases lr) (auto split: option.splits bool.splits)
  show "fst (pushBlock_index env st b txs bid bvc d) = Ok False \<longrightarrow>
           m_verification_failed (snd (snd (pushBlock_index env st b txs bid bvc d)))"
    using p l loop lb unfolding pushBlock_index_def Let_def st1
    by (cases pr; cases lr) (auto split: option.splits bool.splits)
  show "chain_part (m_db (fst (snd (pushBlock_index env st b txs bid bvc d)))) = chain_part (m_db st)"
    using p l loop lc pc unfolding pushBlock_index_def Let_def st1
    by (cases pr; cases lr) (auto simp: chain_part_def split: option.splits bool.splits)
qed

lemma pushBlock_txs_double_spend:
  assumes "spent_key_images (m_db st) k \<noteq> None"
    and "\<not> is_in_checkpoint_zone (checkpoints env) (next_block_height st)"
    and "t \<in> set txs" and "KeyInput a offs k \<in> set (inputs t)"
  shows "fst (pushBlock_txs env st b txs bid bvc) \<noteq> Ok True \<and>
         m_added_to_main_chain (snd (snd (pushBlock_txs env st b txs bid bvc))) = m_added_to_main_chain bvc \<and>
         blocks (m_db (fst (snd (pushBlock_txs env st b txs bid bvc)))) = blocks (m_db st) \<and>
         block_index (m_db (fst (snd (pushBlock_txs env st b txs bid bvc)))) = block_index (m_db st) \<and>
         (fst (pushBlock_txs env st b txs bid bvc) = Ok False \<and>
          pushBlock_prechecks env st b bid \<noteq> Rejected False \<longrightarrow>
            m_verification_failed (snd (snd (pushBlock_txs env st b txs bid bvc))))"
proof (cases "pushBlock_prechecks env st b bid")
  case (Rejected vf)
  then show ?thesis by (simp add: pushBlock_txs_def)
next
  case (Failed f)
  then show ?thesis by (simp add: pushBlock_txs_def)
next
  case (Passed d)
  have eq: "pushBlock_txs env st b txs bid bvc = pushBlock_index env st b txs bid bvc d"
    using Passed by (simp add: pushBlock_txs_def)
  show ?thesis
    using pushBlock_index_double_spend [OF assms, of b bid bvc d] Passed
    unfolding eq by (auto simp: chain_part_def)
qed

lemma loadTransactions_db: "m_db (snd (loadTransactions tls b st)) = m_db st"
  by (simp add: loadTransactions_def split: prod.splits)

lemma saveTransactions_db: "m_db (saveTransactions tls txs st) = m_db st"
  by (simp add: saveTransactions_def)

text \<open>
  Where the inputs are checked, a key image that the index already holds is
  refused. Outside the checkpoint zone: a new block on the tail of the chain, whose
  transactions are in the pool and one of which has a \<open>KeyInput\<close> with a key image
  that the index of spent key images holds when the block comes in, is not
  accepted. \<open>ingest\<close> returns, not with success; the block records and the height
  index are as before and \<open>m_added_to_main_chain\<close> is not set; and when \<open>ingest\<close>
  returns false it has set \<open>m_verification_failed\<close>, unless \<open>pushBlock\<close> has turned
  the block down before on its merge-mining tag or on a next difficulty of 0.
\<close>

lemma ingest_refuses_recorded_key_image:
  assumes "spent_key_images (m_db st) k \<noteq> None"
    and "\<not> is_in_checkpoint_zone (checkpoints env) (next_block_height st)"
    and "get_block_hash (tools env) b = Some bid" and "\<not> haveBlock st bid"
    and "previousBlockHash b = getTailId st"
    and "fst (loadTransactions (tools env) b st) = Some txs"
    and "t \<in> set txs" and "KeyInput a offs k \<in> set (inputs t)"
  shows "\<exists>r st' bvc'. ingest env switch st b bvc = Some (r, st', bvc') \<and> r \<noteq> Ok True \<and>
           m_added_to_main_chain bvc' = m_added_to_main_chain bvc \<and>
           blocks (m_db st') = blocks (m_db st) \<and>
           block_index (m_db st') = block_index (m_db st) \<and>
           (r = Ok False \<and>
            pushBlock_prechecks env (snd (loadTransactions (tools env) b st)) b bid \<noteq> Rejected False
              \<longrightarrow> m_verification_failed bvc')"
proof -
  obtain st1 where lt: "loadTransactions (tools env) b st = (Some txs, st1)"
    using assms(6) by (cases "loadTransactions (tools env) b st") auto
  have db1: "m_db st1 = m_db st" using loadTransactions_db [of "tools env" b st] lt by simp
  have nh: "next_block_height st1 = next_block_height st" by (simp add: next_block_height_def db1)
  obtain r2 st2 bvc2 where p: "pushBlock_txs env st1 b txs bid bvc = (r2, st2, bvc2)"
    by (cases "pushBlock_txs env st1 b txs bid bvc")
  have f: "r2 \<noteq> Ok True" "m_added_to_main_chain bvc2 = m_added_to_main_chain bvc"
    "blocks (m_db st2) = blocks (m_db st)" "block_index (m_db st2) = block_index (m_db st)"
    "r2 = Ok False \<and> pushBlock_prechecks env st1 b bid \<noteq> Rejected False \<longrightarrow> m_verification_failed bvc2"
    using pushBlock_txs_double_spend [of st1 k env t txs a offs b bid bvc] assms(1,2,7,8) db1 nh p
    by simp_all
  let ?res = "if r2 = Ok False then (Ok False, saveTransactions (tools env) txs st2, bvc2)
              else (r2, st2, bvc2)"
  have pb: "pushBlock env st b bid bvc = ?res"
    using lt p by (cases r2) (auto simp: pushBlock_def split: bool.splits)
  have "ingest env switch st b bvc = Some ?res"
    using assms(3,4,5) pb f(1)
    by (cases r2) (auto simp: ingest_def addNewBlock_def split: bool.splits)
  then show ?thesis using f lt by (auto simp: saveTransactions_db)
qed

text \<open>
  Claim C1, as the code has it. \<open>pushTransaction\<close> refuses a key image that the index
  of spent key images holds: the \<open>put\<close> of the key image fails, the function takes
  back what it has written for the transaction and returns false. \<open>pushBlock\<close> does
  not look at that result. So where \<open>checkTransactionInputs\<close> has not refused the
  transaction before, the block is accepted and stored with the transaction in
  it:

  \<^item> inside the checkpoint zone, where \<open>checkTransactionInputs\<close> is not called, the
    block of height 2 whose transaction spends key image 9, which the block of
    height 1 has spent, is added to the main chain; the main chain then has two
    transactions that spend key image 9, and the second is not in the
    transaction index;

  \<^item> outside the checkpoint zone, a block with a transaction whose two inputs
    have the same key image 11, which \<open>checkTransactionInputs\<close> compares with the
    index only, is added to the main chain, and key image 11 is not in the index
    of spent key images afterwards.

  \<open>switch\<close> is the handler of alternative chains, which is not called here.
\<close>

theorem double_spend_accepted:
  "spent_key_images (m_db (chain_gb zone_checkpoints)) 9 = Some 1 \<and>
   inputs (spend_tx 9 101) = [KeyInput 50 [0] 9] \<and>
   is_in_checkpoint_zone zone_checkpoints (next_block_height (chain_gb zone_checkpoints)) \<and>
   (case ingest (example_env zone_checkpoints) switch
           ((chain_gb zone_checkpoints)\<lparr>m_tx_pool := [4197 \<mapsto> spend_tx 9 101]\<rparr>) block_c bvc0 of
      Some (Ok True, st', bvc') \<Rightarrow>
        m_added_to_main_chain bvc' \<and> \<not> m_verification_failed bvc' \<and>
        map_of (block_index (m_db st')) 2 = Some 4 \<and>
        map_option (\<lambda>e. map tx (transactions e)) (blocks (m_db st') 4)
          = Some [coinbase 2 50, spend_tx 9 101] \<and>
        map_option (\<lambda>e. map tx (transactions e)) (blocks (m_db st') 3)
          = Some [coinbase 1 50, spend_tx 9 100] \<and>
        spent_key_images (m_db st') 9 = Some 1 \<and>
        transactions_index (m_db st') 4197 = None
    | _ \<Rightarrow> False) \<and>
   inputs twice_tx = [KeyInput 50 [0] 11, KeyInput 50 [0] 11] \<and>
   \<not> is_in_checkpoint_zone no_checkpoints (next_block_height (chain_g no_checkpoints)) \<and>
   (case ingest (example_env no_checkpoints) switch
           ((chain_g no_checkpoints)\<lparr>m_tx_pool := [4296 \<mapsto> twice_tx]\<rparr>) block_twice bvc0 of
      Some (Ok True, st', bvc') \<Rightarrow>
        m_added_to_main_chain bvc' \<and> \<not> m_verification_failed bvc' \<and>
        map_of (block_index (m_db st')) 1 = Some 8 \<and>
        map_option (\<lambda>e. map tx (transactions e)) (blocks (m_db st') 8)
          = Some [coinbase 1 50, twice_tx] \<and>
        spent_key_images (m_db st') 11 = None \<and>
        transactions_index (m_db st') 4296 = None
    | _ \<Rightarrow> False)"
  by (simp add: chain_g_def chain_gb_def example_defs model_defs Let_def)

section \<open>The decision to switch\<close>

text \<open>
  Claim C4, as the code has it. The main chain is the genesis block and a block of
  height 1 (hash 2), with cumulative difficulty 2 at its tip.
  \<open>handle_alternative_block\<close> compares the cumulative difficulty of the new
  alternative block with that of \<open>tip_be\<close>, which is not the entry of the main tip
  but what the declaration \<open>BlockEntry tip_be;\<close> has left there, here \<open>e\<close>. The theorem
  holds for every \<open>e\<close> and for every depth \<open>Suc n\<close> of nested calls.

  \<^item> A second block of height 1 on the genesis block comes in (hash 6); as an
    alternative chain it has cumulative difficulty 2, equal to that of the main
    chain. When the cumulative difficulty of \<open>e\<close> is less than 2 the engine calls
    \<open>switch_to_alternative_blockchain\<close>, whose first \<open>popBlock\<close> deletes the record of
    the main tip and then throws: \<open>ingest\<close> is left by the exception. Otherwise the
    block is kept as alternative and the state is \<open>chain_ga_alt\<close>.

  \<^item> On \<open>chain_ga_alt\<close> a block of height 2 on the alternative block comes in
    (hash 7); the alternative chain now has cumulative difficulty 3 against the
    2 of the main chain. When the cumulative difficulty of \<open>e\<close> is 3 or more the
    block is kept as alternative and nothing is switched. Otherwise the engine
    calls \<open>switch_to_alternative_blockchain\<close>, which throws as before.
\<close>

theorem reorganize_at_equal_difficulty:
  "map_option cumulative_difficulty
     (blocks (m_db (chain_ga no_checkpoints)) (getTailId (chain_ga no_checkpoints))) = Some 2 \<and>
   (case ingest (env_with e)
           (switch_to_alternative_blockchain (env_with e) example_parameters (Suc n))
           (chain_ga no_checkpoints) block_alt bvc0 of
      Some (r, st', bvc') \<Rightarrow>
        map_option cumulative_difficulty (m_alternative_chains st' 6) = Some 2 \<and>
        r = (if cumulative_difficulty e < 2 then Fail Exception else Ok True) \<and>
        blocks (m_db st') 2 =
          (if cumulative_difficulty e < 2 then None else blocks (m_db (chain_ga no_checkpoints)) 2) \<and>
        (st' = chain_ga_alt) = (\<not> cumulative_difficulty e < 2) \<and>
        bvc' = bvc0
    | None \<Rightarrow> False) \<and>
   map_option cumulative_difficulty (blocks (m_db chain_ga_alt) (getTailId chain_ga_alt)) = Some 2 \<and>
   (case ingest (env_with e)
           (switch_to_alternative_blockchain (env_with e) example_parameters (Suc n))
           chain_ga_alt block_alt2 bvc0 of
      Some (r, st', bvc') \<Rightarrow>
        map_option cumulative_difficulty (m_alternative_chains st' 7) = Some 3 \<and>
        r = (if cumulative_difficulty e < 3 then Fail Exception else Ok True) \<and>
        blocks (m_db st') 2 =
          (if cumulative_difficulty e < 3 then None else blocks (m_db chain_ga_alt) 2) \<and>
        getTailId st' = 2 \<and>
        bvc' = bvc0
    | None \<Rightarrow> False)"
proof -
  have tip: "map_option cumulative_difficulty
     (blocks (m_db (chain_ga no_checkpoints)) (getTailId (chain_ga no_checkpoints))) = Some 2"
    "map_option cumulative_difficulty (blocks (m_db chain_ga_alt) (getTailId chain_ga_alt)) = Some 2"
    by (simp_all add: chain_g_def chain_ga_def example_defs model_defs Let_def)
  have first: "(case ingest (env_with e)
           (switch_to_alternative_blockchain (env_with e) example_parameters (Suc n))
           (chain_ga no_checkpoints) block_alt bvc0 of
      Some (r, st', bvc') \<Rightarrow>
        map_option cumulative_difficulty (m_alternative_chains st' 6) = Some 2 \<and>
        r = (if cumulative_difficulty e < 2 then Fail Exception else Ok True) \<and>
        blocks (m_db st') 2 =
          (if cumulative_difficulty e < 2 then None else blocks (m_db (chain_ga no_checkpoints)) 2) \<and>
        (st' = chain_ga_alt) = (\<not> cumulative_difficulty e < 2) \<and>
        bvc' = bvc0
    | None \<Rightarrow> False)"
  proof (cases "cumulative_difficulty e < 2")
    case True
    then show ?thesis
      by (simp add: chain_g_def chain_ga_def example_defs model_defs Let_def)
  next
    case False
    then show ?thesis
      by (simp add: chain_g_def chain_ga_def example_defs model_defs Let_def)
  qed
  have second: "(case ingest (env_with e)
           (switch_to_alternative_blockchain (env_with e) example_parameters (Suc n))
           chain_ga_alt block_alt2 bvc0 of
      Some (r, st', bvc') \<Rightarrow>
        map_option cumulative_difficulty (m_alternative_chains st' 7) = Some 3 \<and>
        r = (if cumulative_difficulty e < 3 then Fail Exception else Ok True) \<and>
        blocks (m_db st') 2 =
          (if cumulative_difficulty e < 3 then None else blocks (m_db chain_ga_alt) 2) \<and>
        getTailId st' = 2 \<and>
        bvc' = bvc0
    | None \<Rightarrow> False)"
  proof (cases "cumulative_difficulty e < 3")
    case True
    then show ?thesis
      by (simp add: chain_g_def chain_ga_def example_defs model_defs Let_def)
  next
    case False
    then show ?thesis
      by (simp add: chain_g_def chain_ga_def example_defs model_defs Let_def)
  qed
  show ?thesis using tip first second by blast
qed

end
